theory Spec2Isabelle
  imports Main "HOL-Library.Word" "HOL-Library.List_Lexorder"
begin

section \<open>JavaScript strings\<close>

text \<open>
  A JavaScript string is a sequence of 16-bit UTF-16 code units; \<open>length\<close>,
  \<open>indexOf\<close>, \<open>substr\<close>, \<open>charCodeAt\<close> and a regular expression without the
  \<open>u\<close> flag all count code units. The order on strings used by
  \<open>Array.prototype.sort\<close> without a comparator is the lexicographic order of the
  code units, which is the order of \<open>16 word list\<close>.
\<close>

type_synonym code_unit = "16 word"
type_synonym jsstring = "code_unit list"

text \<open>A source literal made of ASCII characters, one code unit per character.\<close>

definition lit :: "string \<Rightarrow> jsstring" where
  "lit s = map of_char s"

definition SLASH :: code_unit where
  "SLASH = 0x2F"

definition BACKSLASH :: code_unit where
  "BACKSLASH = 0x5C"

text \<open>
  The built-in \<open>String.prototype.toLowerCase\<close> follows the case mappings of Unicode:
  it maps letters of every script and can change the length of a string (U+0130 goes
  to \<open>i\<close> and U+0307). It is not defined here: every function that calls it takes
  it as the parameter \<open>lower\<close>, and a statement says what it needs of it.
\<close>

text \<open>\<open>s.startsWith(t)\<close>, used to define \<open>indexOf\<close>.\<close>

fun startsWith :: "jsstring \<Rightarrow> jsstring \<Rightarrow> bool" where
  "startsWith s [] = True"
| "startsWith [] (c # cs) = False"
| "startsWith (d # ds) (c # cs) = (d = c \<and> startsWith ds cs)"

text \<open>
  \<open>s.indexOf(t)\<close>: the least index at which \<open>t\<close> occurs in \<open>s\<close>, or \<open>-1\<close>.
  \<open>indexFrom i s t\<close> searches the suffix \<open>s\<close> that starts at index \<open>i\<close>.
\<close>

fun indexFrom :: "int \<Rightarrow> jsstring \<Rightarrow> jsstring \<Rightarrow> int" where
  "indexFrom i [] t = (if t = [] then i else - 1)"
| "indexFrom i (c # cs) t = (if startsWith (c # cs) t then i else indexFrom (i + 1) cs t)"

definition indexOf :: "jsstring \<Rightarrow> jsstring \<Rightarrow> int" where
  "indexOf s t = indexFrom 0 s t"

text \<open>\<open>s.substr(n)\<close> for a length \<open>n\<close> (never negative here): the rest from index \<open>n\<close>.\<close>

definition substr :: "jsstring \<Rightarrow> nat \<Rightarrow> jsstring" where
  "substr s n = drop n s"

text \<open>
  The white space and line terminators that \<open>String.prototype.trim\<close> removes
  (ECMA-262: TAB, LF, VT, FF, CR, SP, NBSP, the Unicode space separators, LS, PS, ZWNBSP).
\<close>

definition isWhiteSpace :: "code_unit \<Rightarrow> bool" where
  "isWhiteSpace c =
     ((0x09 \<le> c \<and> c \<le> 0x0D) \<or> c = 0x20 \<or> c = 0xA0 \<or> c = 0x1680
      \<or> (0x2000 \<le> c \<and> c \<le> 0x200A) \<or> c = 0x2028 \<or> c = 0x2029 \<or> c = 0x202F
      \<or> c = 0x205F \<or> c = 0x3000 \<or> c = 0xFEFF)"

definition trim :: "jsstring \<Rightarrow> jsstring" where
  "trim s = rev (dropWhile isWhiteSpace (rev (dropWhile isWhiteSpace s)))"

section \<open>Application settings\<close>

text \<open>
  The three Dropbox settings of \<open>AppSettings\<close>. Each is a string, \<open>null\<close> or
  \<open>undefined\<close>; the code never tells \<open>null\<close> from \<open>undefined\<close> (it tests
  truthiness or uses \<open>??\<close>), so both are \<open>None\<close>.
\<close>

record app_settings =
  dropboxAppKey :: "jsstring option"
  dropboxSecret :: "jsstring option"
  dropboxFolder :: "jsstring option"

text \<open>Truthiness of a \<open>string | null | undefined\<close>: a non-empty string.\<close>

fun truthy :: "jsstring option \<Rightarrow> bool" where
  "truthy None = False"
| "truthy (Some s) = (s \<noteq> [])"

section \<open>Path resolver\<close>

text \<open>
  Modelled from the spec: \<open>UrlFormat.fixSlashes\<close> is not among the sources. The spec
  says both directions "normalize to a canonical slash form (no duplicate slashes,
  leading slash always present)"; the leading slash is added by the callers, and
  \<open>fixSlashes\<close> replaces every run of slashes by one slash.
\<close>

fun fixSlashes :: "jsstring \<Rightarrow> jsstring" where
  "fixSlashes [] = []"
| "fixSlashes [c] = [c]"
| "fixSlashes (c # d # cs) =
     (if c = SLASH \<and> d = SLASH then fixSlashes (d # cs) else c # fixSlashes (d # cs))"

definition toFullPath :: "app_settings \<Rightarrow> jsstring \<Rightarrow> jsstring" where
  "toFullPath settings path =
     (case dropboxFolder settings of
        None \<Rightarrow> path
      | Some rootFolder \<Rightarrow>
          if rootFolder \<noteq> [] then fixSlashes ([SLASH] @ rootFolder @ [SLASH] @ path)
          else path)"

definition toRelPath :: "(jsstring \<Rightarrow> jsstring) \<Rightarrow> app_settings \<Rightarrow> jsstring \<Rightarrow> jsstring" where
  "toRelPath lower settings path =
     (case dropboxFolder settings of
        None \<Rightarrow> path
      | Some rootFolder \<Rightarrow>
          if rootFolder \<noteq> [] then
            (let ix = indexOf (lower path) (lower rootFolder);
                 path' = (if ix = 0 then substr path (length rootFolder)
                          else if ix = 1 then substr path (length rootFolder + 1)
                          else path)
             in fixSlashes ([SLASH] @ path'))
          else path)"

definition fixConfigFolder :: "jsstring \<Rightarrow> jsstring" where
  "fixConfigFolder folder =
     (let folder' = trim (map (\<lambda>c. if c = BACKSLASH then SLASH else c) folder)
      in (case folder' of
            [] \<Rightarrow> folder'
          | c # cs \<Rightarrow> if c = SLASH then substr folder' 1 else folder'))"

text \<open>Two adjacent slashes somewhere in a string.\<close>

fun hasDoubleSlash :: "jsstring \<Rightarrow> bool" where
  "hasDoubleSlash (c # d # cs) = ((c = SLASH \<and> d = SLASH) \<or> hasDoubleSlash (d # cs))"
| "hasDoubleSlash [c] = False"
| "hasDoubleSlash [] = False"

text \<open>
  The canonical slash form of a logical path, in the spec's words "no duplicate
  slashes, leading slash always present": what \<open>toRelPath\<close> itself applies last.
\<close>

definition canonical :: "jsstring \<Rightarrow> jsstring" where
  "canonical p = fixSlashes ([SLASH] @ p)"

section \<open>JavaScript values\<close>

text \<open>
  The values a parsed JSON response or a thrown error can hold. An object is the list
  of its properties; reading a property gives the first binding and \<open>undefined\<close>
  when there is none. Numbers are integers here: the code inspects no number of a
  response but the HTTP status.
\<close>

datatype jsvalue =
    JUndefined
  | JNull
  | JBool bool
  | JNumber int
  | JString jsstring
  | JArray "jsvalue list"
  | JObject "(jsstring \<times> jsvalue) list"

datatype jstype = TUndefined | TObject | TBoolean | TNumber | TString

fun typeof :: "jsvalue \<Rightarrow> jstype" where
  "typeof JUndefined = TUndefined"
| "typeof JNull = TObject"
| "typeof (JBool b) = TBoolean"
| "typeof (JNumber n) = TNumber"
| "typeof (JString s) = TString"
| "typeof (JArray vs) = TObject"
| "typeof (JObject ps) = TObject"

fun truthyValue :: "jsvalue \<Rightarrow> bool" where
  "truthyValue JUndefined = False"
| "truthyValue JNull = False"
| "truthyValue (JBool b) = b"
| "truthyValue (JNumber n) = (n \<noteq> 0)"
| "truthyValue (JString s) = (s \<noteq> [])"
| "truthyValue (JArray vs) = True"
| "truthyValue (JObject ps) = True"

text \<open>The property \<open>k\<close> of an object given by its property list.\<close>

definition lookupProp :: "(jsstring \<times> jsvalue) list \<Rightarrow> jsstring \<Rightarrow> jsvalue" where
  "lookupProp ps k = (case map_of ps k of None \<Rightarrow> JUndefined | Some v \<Rightarrow> v)"

section \<open>Errors\<close>

text \<open>
  What the transport (\<open>StorageBase.xhr\<close>, not among the sources) rejects with: an
  error object with its properties, which is an instance of \<open>HttpRequestError\<close>
  with a numeric \<open>status\<close>, or is not.
\<close>

datatype thrown =
    HttpRequestError int "(jsstring \<times> jsvalue) list"
  | OtherError "(jsstring \<times> jsvalue) list"

fun thrownProps :: "thrown \<Rightarrow> (jsstring \<times> jsvalue) list" where
  "thrownProps (HttpRequestError status ps) = ps"
| "thrownProps (OtherError ps) = ps"

text \<open>\<open>e instanceof HttpRequestError ? e.status : 0\<close>.\<close>

fun thrownStatus :: "thrown \<Rightarrow> int" where
  "thrownStatus (HttpRequestError status ps) = status"
| "thrownStatus (OtherError ps) = 0"

text \<open>
  The errors an operation of the storage ends with: \<open>StorageFileNotFoundError\<close>,
  a plain \<open>Error\<close> with its message, the \<open>TypeError\<close> of the runtime for a
  property read of \<open>null\<close> or \<open>undefined\<close>, and a rejection of
  \<open>oauthAuthorize\<close>, which passes through unchanged.
\<close>

datatype error =
    StorageFileNotFoundError
  | Error jsstring
  | TypeError
  | Rejected thrown

text \<open>
  \<open>v[k]\<close> for the keys this code reads (\<open>name\<close>, \<open>path_display\<close>, \<open>rev\<close>,
  \<open>.tag\<close>, \<open>path\<close>, \<open>entries\<close>): a \<open>TypeError\<close> on \<open>null\<close> and
  \<open>undefined\<close>, the property of an object, and \<open>undefined\<close> on every other
  value: none of these keys is a property of a primitive or of an array, but for
  \<open>entries\<close>, a method of arrays, which \<open>list\<close> refuses as it refuses
  \<open>undefined\<close>, since a method is no array.
\<close>

fun getProp :: "jsvalue \<Rightarrow> jsstring \<Rightarrow> error + jsvalue" where
  "getProp JUndefined k = Inl TypeError"
| "getProp JNull k = Inl TypeError"
| "getProp (JObject ps) k = Inr (lookupProp ps k)"
| "getProp v k = Inr JUndefined"

text \<open>\<open>String(n)\<close> for an integer \<open>n\<close>, as a template literal renders a status.\<close>

function digitsOf :: "nat \<Rightarrow> jsstring" where
  "digitsOf n = (if n < 10 then [0x30 + of_nat n] else digitsOf (n div 10) @ [0x30 + of_nat (n mod 10)])"
  by pat_completeness auto
termination
  by (relation "measure (\<lambda>n. n)") auto

declare digitsOf.simps [simp del]

definition numberToString :: "int \<Rightarrow> jsstring" where
  "numberToString i = (if i < 0 then 0x2D # digitsOf (nat (- i)) else digitsOf (nat i))"

section \<open>API call executor\<close>

subsection \<open>The header encoding\<close>

text \<open>\<open>n.toString(16)\<close>: lowercase hexadecimal digits, no padding.\<close>

definition hexDigit :: "nat \<Rightarrow> code_unit" where
  "hexDigit d = (if d < 10 then 0x30 + of_nat d else 0x61 + of_nat (d - 10))"

function toString16 :: "nat \<Rightarrow> jsstring" where
  "toString16 n = (if n < 16 then [hexDigit n] else toString16 (n div 16) @ [hexDigit (n mod 16)])"
  by pat_completeness auto
termination
  by (relation "measure (\<lambda>n. n)") auto

declare toString16.simps [simp del]

text \<open>\<open>s.slice(-4)\<close>: the last four code units (all of a shorter string).\<close>

definition sliceLast4 :: "jsstring \<Rightarrow> jsstring" where
  "sliceLast4 s = drop (length s - 4) s"

text \<open>The replacement of one matched code unit \<open>c\<close>: backslash, \<open>u\<close>, four digits.\<close>

definition escapeUnit :: "code_unit \<Rightarrow> jsstring" where
  "escapeUnit c = [BACKSLASH, 0x75] @ sliceLast4 (lit ''000'' @ toString16 (unat c))"

text \<open>
  The regular expression of the source is the class from U+007F to U+FFFF with the
  \<open>g\<close> flag and no \<open>u\<close> flag: it matches every single code unit from 0x7F on,
  and each match is replaced.
\<close>

definition encodeJsonHttpHeader :: "jsstring \<Rightarrow> jsstring" where
  "encodeJsonHttpHeader json = concat (map (\<lambda>c. if 0x7F \<le> c then escapeUnit c else [c]) json)"

subsection \<open>Requests, responses and the environment\<close>

datatype body = TextBody jsstring | BinaryBody "8 word list"

record api_args =
  arg_method :: jsstring
  arg_host :: "jsstring option"
  arg_data :: "body option"
  arg_apiArg :: "jsvalue option"
  arg_statuses :: "int list option"
  arg_responseType :: "jsstring option"

record xhr_config =
  cfg_url :: jsstring
  cfg_method :: jsstring
  cfg_responseType :: jsstring
  cfg_headers :: "(jsstring \<times> jsstring) list"
  cfg_data :: "body option"
  cfg_dataType :: "jsstring option"
  cfg_statuses :: "int list option"

record http_response =
  resp_status :: int
  resp_data :: jsvalue
  resp_headers :: "(jsstring \<times> jsstring) list"

text \<open>
  The calls of the logger are left out: they change nothing the operations return.

  What the code takes from outside this file: the constants of \<open>DropboxApps\<close>
  and \<open>Locale\<close>, the built-ins \<open>JSON.stringify\<close> and
  \<open>String.prototype.toLowerCase\<close>, and the methods of
  \<open>StorageBase\<close> with what they answer: \<open>oauthAuthorize\<close> and
  \<open>oauthRevokeToken\<close> resolve (\<open>None\<close>) or reject, \<open>xhr\<close> resolves with a
  response or rejects.
\<close>

record env =
  AppFolder_id :: jsstring
  AppFolder_secret :: jsstring
  FullDropbox_id :: jsstring
  FullDropbox_secret :: jsstring
  dropboxAppKeyHint :: jsstring
  JSON_stringify :: "jsvalue \<Rightarrow> jsstring"
  toLowerCase :: "jsstring \<Rightarrow> jsstring"
  oauthAuthorize :: "thrown option"
  xhr :: "xhr_config \<Rightarrow> thrown + http_response"
  oauthRevokeToken :: "thrown option"

text \<open>
  The state the operations change: the settings, and the calls made to the outside,
  in order.
\<close>

datatype effect =
    OAuthAuthorize
  | Xhr xhr_config
  | OAuthRevokeToken jsstring bool
  | BatchSet app_settings

record world =
  settings :: app_settings
  effects :: "effect list"

definition emit :: "effect \<Rightarrow> world \<Rightarrow> world" where
  "emit ev w = w\<lparr>effects := effects w @ [ev]\<rparr>"

subsection \<open>apiCall\<close>

text \<open>\<open>a || b\<close> on an optional string.\<close>

definition orElse :: "jsstring option \<Rightarrow> jsstring \<Rightarrow> jsstring" where
  "orElse a b = (case a of None \<Rightarrow> b | Some s \<Rightarrow> if s \<noteq> [] then s else b)"

definition apiRequest :: "env \<Rightarrow> api_args \<Rightarrow> xhr_config" where
  "apiRequest env args =
     (let host = orElse (arg_host args) (lit ''api'');
          headers = (case arg_apiArg args of
                       Some a \<Rightarrow> [(lit ''Dropbox-API-Arg'', encodeJsonHttpHeader (JSON_stringify env a))]
                     | None \<Rightarrow> []);
          dataType = (case arg_apiArg args of
                        Some a \<Rightarrow> None
                      | None \<Rightarrow> (case arg_data args of
                                   Some (TextBody s) \<Rightarrow> Some (lit ''application/json'')
                                 | _ \<Rightarrow> None))
      in \<lparr>cfg_url = lit ''https://'' @ host @ lit ''.dropboxapi.com/2/'' @ arg_method args,
          cfg_method = lit ''POST'',
          cfg_responseType = orElse (arg_responseType args) (lit ''json''),
          cfg_headers = headers,
          cfg_data = arg_data args,
          cfg_dataType = dataType,
          cfg_statuses = arg_statuses args\<rparr>)"

text \<open>The \<open>catch\<close> block of \<open>apiCall\<close>: what a rejection of \<open>xhr\<close> becomes.\<close>

definition apiError :: "thrown \<Rightarrow> error" where
  "apiError e =
     (let path = lookupProp (thrownProps e) (lit ''path'') in
      if truthyValue path \<and> typeof path = TObject
         \<and> getProp path (lit ''.tag'') = Inr (JString (lit ''not_found''))
      then StorageFileNotFoundError
      else (let status = thrownStatus e
            in Error (lit ''API error, status code '' @ numberToString status)))"

definition apiCall :: "env \<Rightarrow> api_args \<Rightarrow> world \<Rightarrow> (error + http_response) \<times> world" where
  "apiCall env args w =
     (let w1 = emit OAuthAuthorize w in
      case oauthAuthorize env of
        Some e \<Rightarrow> (Inl (Rejected e), w1)
      | None \<Rightarrow>
          (let cfg = apiRequest env args; w2 = emit (Xhr cfg) w1 in
           case xhr env cfg of
             Inr response \<Rightarrow> (Inr response, w2)
           | Inl e \<Rightarrow> (Inl (apiError e), w2)))"

section \<open>Storage backend\<close>

subsection \<open>stat\<close>

record storage_file_stat =
  stat_rev :: "jsstring option"
  stat_folder :: "bool option"

text \<open>The part of \<open>stat\<close> after the call: \<open>rec\<close> is \<open>result.data\<close>.\<close>

definition statResult :: "jsvalue \<Rightarrow> error + storage_file_stat" where
  "statResult rec =
     (case getProp rec (lit ''.tag'') of
        Inl e \<Rightarrow> Inl e
      | Inr tag \<Rightarrow>
          (case tag of
             JString t \<Rightarrow>
               if t = lit ''file'' then
                 (case getProp rec (lit ''rev'') of
                    Inl e \<Rightarrow> Inl e
                  | Inr (JString r) \<Rightarrow> Inr \<lparr>stat_rev = Some r, stat_folder = None\<rparr>
                  | Inr _ \<Rightarrow> Inr \<lparr>stat_rev = None, stat_folder = None\<rparr>)
               else if t = lit ''folder'' then Inr \<lparr>stat_rev = None, stat_folder = Some True\<rparr>
               else Inl (Error (lit ''Bad .tag: '' @ t))
           | _ \<Rightarrow> Inl (Error (lit ''.tag not found in response''))))"

text \<open>The argument of \<open>apiCall\<close> in \<open>stat\<close>, for the full path.\<close>

definition statArgs :: "env \<Rightarrow> jsstring \<Rightarrow> api_args" where
  "statArgs env path =
     \<lparr>arg_method = lit ''files/get_metadata'', arg_host = None,
      arg_data = Some (TextBody (JSON_stringify env (JObject [(lit ''path'', JString path)]))),
      arg_apiArg = None, arg_statuses = None, arg_responseType = None\<rparr>"

definition stat :: "env \<Rightarrow> jsstring \<Rightarrow> world \<Rightarrow> (error + storage_file_stat) \<times> world" where
  "stat env path w =
     (let path' = toFullPath (settings w) path in
      case apiCall env (statArgs env path') w of
        (Inl e, w') \<Rightarrow> (Inl e, w')
      | (Inr result, w') \<Rightarrow> (statResult (resp_data result), w'))"

subsection \<open>save\<close>

record storage_save_result =
  save_rev :: "jsstring option"

text \<open>
  The \<open>arg\<close> of \<open>save\<close>; \<open>rv\<close> is the parameter \<open>rev\<close>.
  \<open>rev ? ... : ...\<close> tests truthiness: an omitted and an empty \<open>rev\<close> both give
  the overwrite mode.
\<close>

definition saveArg :: "jsstring \<Rightarrow> jsstring option \<Rightarrow> jsvalue" where
  "saveArg path rv =
     JObject [(lit ''path'', JString path),
              (lit ''mode'',
               (if truthy rv
                then JObject [(lit ''.tag'', JString (lit ''update'')), (lit ''update'', JString (the rv))]
                else JObject [(lit ''.tag'', JString (lit ''overwrite''))]))]"

text \<open>The argument of \<open>apiCall\<close> in \<open>save\<close>.\<close>

definition saveArgs :: "8 word list \<Rightarrow> jsvalue \<Rightarrow> api_args" where
  "saveArgs data arg =
     \<lparr>arg_method = lit ''files/upload'', arg_host = Some (lit ''content''),
      arg_data = Some (BinaryBody data), arg_apiArg = Some arg,
      arg_statuses = None, arg_responseType = Some (lit ''json'')\<rparr>"

text \<open>The parameter \<open>opts\<close> of the source is never read and is left out.\<close>

definition save ::
  "env \<Rightarrow> jsstring \<Rightarrow> 8 word list \<Rightarrow> jsstring option \<Rightarrow> world \<Rightarrow> (error + storage_save_result) \<times> world" where
  "save env path data rv w =
     (let path' = toFullPath (settings w) path;
          arg = saveArg path' rv in
      case apiCall env (saveArgs data arg) w of
        (Inl e, w') \<Rightarrow> (Inl e, w')
      | (Inr result, w') \<Rightarrow>
          (case getProp (resp_data result) (lit ''rev'') of
             Inl e \<Rightarrow> (Inl e, w')
           | Inr (JString savedRev) \<Rightarrow> (Inr \<lparr>save_rev = Some savedRev\<rparr>, w')
           | Inr _ \<Rightarrow> (Inr \<lparr>save_rev = None\<rparr>, w')))"

subsection \<open>list\<close>

record storage_list_item =
  item_name :: jsstring
  item_path :: jsstring
  item_rev :: "jsstring option"
  item_dir :: bool

text \<open>
  The body of the loop of \<open>list\<close> for one entry: \<open>Inr None\<close> is \<open>continue\<close>,
  \<open>Inr (Some item)\<close> is the item pushed.
\<close>

definition listItem ::
  "(jsstring \<Rightarrow> jsstring) \<Rightarrow> app_settings \<Rightarrow> jsvalue \<Rightarrow> error + storage_list_item option" where
  "listItem lower s entry =
     (case getProp entry (lit ''name'') of
        Inl e \<Rightarrow> Inl e
      | Inr (JString name) \<Rightarrow>
          (case getProp entry (lit ''path_display'') of
             Inl e \<Rightarrow> Inl e
           | Inr (JString path_display) \<Rightarrow>
               (case getProp entry (lit ''rev'') of
                  Inl e \<Rightarrow> Inl e
                | Inr rv \<Rightarrow>
                    if rv \<noteq> JUndefined \<and> typeof rv \<noteq> TString then Inr None
                    else
                      (case getProp entry (lit ''.tag'') of
                         Inl e \<Rightarrow> Inl e
                       | Inr tag \<Rightarrow>
                           Inr (Some \<lparr>item_name = name,
                                      item_path = toRelPath lower s path_display,
                                      item_rev = (case rv of JString r \<Rightarrow> Some r | _ \<Rightarrow> None),
                                      item_dir = (tag \<noteq> JString (lit ''file''))\<rparr>)))
           | Inr _ \<Rightarrow> Inr None)
      | Inr _ \<Rightarrow> Inr None)"

fun listEntries ::
  "(jsstring \<Rightarrow> jsstring) \<Rightarrow> app_settings \<Rightarrow> jsvalue list \<Rightarrow> storage_list_item list
     \<Rightarrow> error + storage_list_item list" where
  "listEntries lower s [] result = Inr result"
| "listEntries lower s (ent # ents) result =
     (case listItem lower s ent of
        Inl e \<Rightarrow> Inl e
      | Inr None \<Rightarrow> listEntries lower s ents result
      | Inr (Some item) \<Rightarrow> listEntries lower s ents (result @ [item]))"

text \<open>\<open>v?.k\<close>: \<open>undefined\<close> when \<open>v\<close> is \<open>null\<close> or \<open>undefined\<close>.\<close>

definition optProp :: "jsvalue \<Rightarrow> jsstring \<Rightarrow> jsvalue" where
  "optProp v k = (case getProp v k of Inl e \<Rightarrow> JUndefined | Inr x \<Rightarrow> x)"

text \<open>The argument of \<open>apiCall\<close> in \<open>list\<close>, for the full path of the folder.\<close>

definition listArgs :: "env \<Rightarrow> jsstring \<Rightarrow> api_args" where
  "listArgs env path =
     \<lparr>arg_method = lit ''files/list_folder'', arg_host = None,
      arg_data = Some (TextBody (JSON_stringify env
        (JObject [(lit ''path'', JString path), (lit ''recursive'', JBool False)]))),
      arg_apiArg = None, arg_statuses = None, arg_responseType = None\<rparr>"

definition list :: "env \<Rightarrow> jsstring option \<Rightarrow> world \<Rightarrow> (error + storage_list_item list) \<times> world" where
  "list env dir w =
     (case apiCall env (listArgs env (toFullPath (settings w) (orElse dir []))) w of
        (Inl e, w') \<Rightarrow> (Inl e, w')
      | (Inr response, w') \<Rightarrow>
          (case optProp (resp_data response) (lit ''entries'') of
             JArray entries \<Rightarrow> (listEntries (toLowerCase env) (settings w') entries [], w')
           | _ \<Rightarrow> (Inl (Error (lit ''Empty response'')), w')))"

subsection \<open>Configuration\<close>

text \<open>The fields of the \<open>config\<close> record that \<open>applyConfig\<close> reads.\<close>

record config =
  config_key :: "jsstring option"
  config_secret :: "jsstring option"
  config_folder :: "jsstring option"

text \<open>
  Modelled from the spec: \<open>AppSettings.batchSet\<close> is not among the sources. The spec
  says the settings are persisted "atomically (all-or-nothing)": the assignments of the
  callback take effect together, as one update, which the trace records.
\<close>

definition batchSet :: "(app_settings \<Rightarrow> app_settings) \<Rightarrow> world \<Rightarrow> world" where
  "batchSet f w = (let s = f (settings w) in emit (BatchSet s) (w\<lparr>settings := s\<rparr>))"

definition applyConfig :: "env \<Rightarrow> config \<Rightarrow> world \<Rightarrow> (error + unit) \<times> world" where
  "applyConfig env config w =
     (if config_key config = Some (AppFolder_id env) \<or> config_key config = Some (FullDropbox_id env)
      then (Inl (Error (lit ''Bad key'')), w)
      else
        (let folder = (if truthy (config_folder config)
                       then Some (fixConfigFolder (the (config_folder config)))
                       else config_folder config)
         in (Inr (),
             batchSet (\<lambda>s. s\<lparr>dropboxAppKey := config_key config,
                              dropboxSecret := config_secret config,
                              dropboxFolder := folder\<rparr>) w)))"

definition logout :: "env \<Rightarrow> world \<Rightarrow> (error + unit) \<times> world" where
  "logout env w =
     (let w' = emit (OAuthRevokeToken (lit ''https://api.dropboxapi.com/2/auth/token/revoke'') True) w in
      case oauthRevokeToken env of
        Some e \<Rightarrow> (Inl (Rejected e), w')
      | None \<Rightarrow> (Inr (), w'))"

text \<open>\<open>promise.catch(noop)\<close>: a rejection is dropped, the caller goes on.\<close>

definition catchNoop :: "(error + unit) \<times> world \<Rightarrow> (error + unit) \<times> world" where
  "catchNoop r = (Inr (), snd r)"

definition setAppKey :: "jsstring \<Rightarrow> world \<Rightarrow> world" where
  "setAppKey v w = w\<lparr>settings := (settings w)\<lparr>dropboxAppKey := Some v\<rparr>\<rparr>"

definition setSecret :: "jsstring \<Rightarrow> world \<Rightarrow> world" where
  "setSecret v w = w\<lparr>settings := (settings w)\<lparr>dropboxSecret := Some v\<rparr>\<rparr>"

definition setFolder :: "jsstring \<Rightarrow> world \<Rightarrow> world" where
  "setFolder v w = w\<lparr>settings := (settings w)\<lparr>dropboxFolder := Some v\<rparr>\<rparr>"

definition applySetting :: "env \<Rightarrow> jsstring \<Rightarrow> jsstring \<Rightarrow> world \<Rightarrow> (error + unit) \<times> world" where
  "applySetting env key val w =
     (if key = lit ''link'' then
        (if val = lit ''app'' then catchNoop (logout env (setAppKey (AppFolder_id env) w))
         else if val = lit ''full'' then catchNoop (logout env (setAppKey (FullDropbox_id env) w))
         else if val = lit ''custom'' then
           catchNoop (logout env (setAppKey (lit ''('' @ dropboxAppKeyHint env @ lit '')'') w))
         else (Inr (), w))
      else if key = lit ''key'' then catchNoop (logout env (setAppKey val w))
      else if key = lit ''secret'' then catchNoop (logout env (setSecret val w))
      else if key = lit ''folder'' then (Inr (), setFolder (fixConfigFolder val) w)
      else (Inr (), w))"

section \<open>Workspace tags\<close>

text \<open>
  A file is given by the entries that \<open>file.entriesMatching(new Filter())\<close> yields
  (the \<open>File\<close> model is not among the sources), and an entry by its \<open>tags\<close>:
  \<open>undefined\<close> (\<open>None\<close>) or an array of strings.
\<close>

type_synonym entry = "jsstring list option"












section \<open>Predicates of the statements\<close>

text \<open>
  The error body of a rejection "contains a path object whose \<open>.tag\<close> discriminator
  equals \<open>not_found\<close>".
\<close>

definition notFoundBody :: "thrown \<Rightarrow> bool" where
  "notFoundBody e =
     (case map_of (thrownProps e) (lit ''path'') of
        Some (JObject ps) \<Rightarrow> map_of ps (lit ''.tag'') = Some (JString (lit ''not_found''))
      | _ \<Rightarrow> False)"

text \<open>\<open>null\<close> or \<open>undefined\<close>: the values without properties.\<close>

fun nullish :: "jsvalue \<Rightarrow> bool" where
  "nullish JUndefined = True"
| "nullish JNull = True"
| "nullish v = False"

text \<open>
  A well-formed entry of a listing: "string name, string path_display, rev either
  absent or a string".
\<close>

definition wellFormed :: "jsvalue \<Rightarrow> bool" where
  "wellFormed ent =
     (typeof (optProp ent (lit ''name'')) = TString
      \<and> typeof (optProp ent (lit ''path_display'')) = TString
      \<and> (optProp ent (lit ''rev'') = JUndefined \<or> typeof (optProp ent (lit ''rev'')) = TString))"

text \<open>The string of a string value (the empty string for any other value).\<close>

fun stringOf :: "jsvalue \<Rightarrow> jsstring" where
  "stringOf (JString s) = s"
| "stringOf v = []"

fun stringOption :: "jsvalue \<Rightarrow> jsstring option" where
  "stringOption (JString s) = Some s"
| "stringOption v = None"

text \<open>
  The \<open>StorageListItem\<close> of a well-formed entry; its \<open>dir\<close> flag "is true exactly
  when its \<open>.tag\<close> is not \<open>file\<close>".
\<close>

definition entryItem :: "(jsstring \<Rightarrow> jsstring) \<Rightarrow> app_settings \<Rightarrow> jsvalue \<Rightarrow> storage_list_item" where
  "entryItem lower s ent =
     \<lparr>item_name = stringOf (optProp ent (lit ''name'')),
      item_path = toRelPath lower s (stringOf (optProp ent (lit ''path_display''))),
      item_rev = stringOption (optProp ent (lit ''rev'')),
      item_dir = (optProp ent (lit ''.tag'') \<noteq> JString (lit ''file''))\<rparr>"

text \<open>The requests that \<open>save\<close> and \<open>list\<close> hand to the transport.\<close>

definition saveRequest :: "env \<Rightarrow> world \<Rightarrow> jsstring \<Rightarrow> 8 word list \<Rightarrow> jsstring option \<Rightarrow> xhr_config" where
  "saveRequest env w path data rv =
     apiRequest env (saveArgs data (saveArg (toFullPath (settings w) path) rv))"

definition listRequest :: "env \<Rightarrow> world \<Rightarrow> jsstring option \<Rightarrow> xhr_config" where
  "listRequest env w dir = apiRequest env (listArgs env (toFullPath (settings w) (orElse dir [])))"

text \<open>
  The three steps of sanitizing a folder: "backslashes converted to slashes, whitespace
  trimmed, leading slash stripped".
\<close>

definition stripLeadingSlash :: "jsstring \<Rightarrow> jsstring" where
  "stripLeadingSlash s = (if s \<noteq> [] \<and> hd s = SLASH then tl s else s)"

definition backslashesToSlashes :: "jsstring \<Rightarrow> jsstring" where
  "backslashesToSlashes s = map (\<lambda>c. if c = BACKSLASH then SLASH else c) s"

text \<open>A key "equal to either built-in application identifier".\<close>

definition builtInKey :: "env \<Rightarrow> jsstring option \<Rightarrow> bool" where
  "builtInKey env k = (k = Some (AppFolder_id env) \<or> k = Some (FullDropbox_id env))"

text \<open>The call that \<open>logout\<close> makes.\<close>

definition revokeCall :: effect where
  "revokeCall = OAuthRevokeToken (lit ''https://api.dropboxapi.com/2/auth/token/revoke'') True"




text \<open>
  What the path resolver needs of \<open>toLowerCase\<close>: it works segment by segment
  between slashes, it makes no slash of another character, and it gives the empty
  string for the empty string only. The built-in has these properties: its one rule
  that looks at the neighbours of a letter, the final sigma, looks across letters and
  case-ignorable characters, and a slash is neither.
\<close>

definition slashWise :: "(jsstring \<Rightarrow> jsstring) \<Rightarrow> bool" where
  "slashWise lower =
     ((\<forall>a b. lower (a @ SLASH # b) = lower a @ SLASH # lower b)
      \<and> (\<forall>a. SLASH \<in> set (lower a) \<longrightarrow> SLASH \<in> set a)
      \<and> (\<forall>a. (lower a = []) = (a = [])))"


section \<open>Example scenarios\<close>

text \<open>The settings of the spec's example: the root folder is \<open>Vault\<close>.\<close>

definition vaultSettings :: app_settings where
  "vaultSettings = \<lparr>dropboxAppKey = None, dropboxSecret = None, dropboxFolder = Some (lit ''Vault'')\<rparr>"

text \<open>A root folder with two adjacent slashes, as \<open>fixConfigFolder\<close> lets through.\<close>

definition doubleSlashSettings :: app_settings where
  "doubleSlashSettings = \<lparr>dropboxAppKey = None, dropboxSecret = None, dropboxFolder = Some (lit ''a//b'')\<rparr>"

text \<open>
  The built-in \<open>toLowerCase\<close> on strings of ASCII code units: \<open>A\<close>..\<open>Z\<close>
  (0x41..0x5A) go to \<open>a\<close>..\<open>z\<close>, every other code unit is kept. The examples
  use ASCII strings only.
\<close>

definition lowerUnit :: "code_unit \<Rightarrow> code_unit" where
  "lowerUnit c = (if 0x41 \<le> c \<and> c \<le> 0x5A then c + 0x20 else c)"

definition asciiLowerCase :: "jsstring \<Rightarrow> jsstring" where
  "asciiLowerCase s = map lowerUnit s"

text \<open>
  The built-in \<open>toLowerCase\<close> on strings of ASCII code units and U+0130, the capital
  I with a dot above, whose lower-case form is two code units: \<open>i\<close> and U+0307, the
  combining dot above. And the settings with that letter as the root folder.
\<close>

definition dottedLowerCase :: "jsstring \<Rightarrow> jsstring" where
  "dottedLowerCase s = concat (map (\<lambda>c. if c = 0x130 then [0x69, 0x307] else [lowerUnit c]) s)"

definition dottedSettings :: app_settings where
  "dottedSettings = \<lparr>dropboxAppKey = None, dropboxSecret = None, dropboxFolder = Some [0x130]\<rparr>"

text \<open>A JSON text with a code unit beyond ASCII: \<open>{"\<close>, U+00E9, \<open>"}\<close>.\<close>

definition exampleJson :: jsstring where
  "exampleJson = [0x7B, 0x22, 0xE9, 0x22, 0x7D]"

text \<open>
  An environment whose authorization succeeds and whose transport gives \<open>answer\<close> to
  every request.
\<close>

definition exampleEnv :: "thrown + http_response \<Rightarrow> env" where
  "exampleEnv answer =
     \<lparr>AppFolder_id = lit ''app-folder-id'', AppFolder_secret = lit ''app-folder-secret'',
      FullDropbox_id = lit ''full-dropbox-id'', FullDropbox_secret = lit ''full-dropbox-secret'',
      dropboxAppKeyHint = lit ''your app key'',
      JSON_stringify = (\<lambda>v. exampleJson),
      toLowerCase = asciiLowerCase,
      oauthAuthorize = None,
      xhr = (\<lambda>cfg. answer),
      oauthRevokeToken = None\<rparr>"

definition exampleWorld :: world where
  "exampleWorld = \<lparr>settings = vaultSettings, effects = []\<rparr>"

definition okResponse :: "jsvalue \<Rightarrow> thrown + http_response" where
  "okResponse d = Inr \<lparr>resp_status = 200, resp_data = d, resp_headers = []\<rparr>"

text \<open>
  Rejections with status 409: a revision conflict of an upload, a full quota, and a
  path that is not found; and one with status 500.
\<close>

definition conflictError :: thrown where
  "conflictError =
     HttpRequestError 409
       [(lit ''.tag'', JString (lit ''path'')),
        (lit ''reason'', JObject [(lit ''.tag'', JString (lit ''conflict'')),
                                   (lit ''conflict'', JObject [(lit ''.tag'', JString (lit ''file''))])])]"

definition quotaError :: thrown where
  "quotaError =
     HttpRequestError 409
       [(lit ''.tag'', JString (lit ''path'')),
        (lit ''reason'', JObject [(lit ''.tag'', JString (lit ''insufficient_space''))])]"

definition notFoundError :: thrown where
  "notFoundError =
     HttpRequestError 409
       [(lit ''.tag'', JString (lit ''path'')),
        (lit ''path'', JObject [(lit ''.tag'', JString (lit ''not_found''))])]"

definition serverError :: thrown where
  "serverError = HttpRequestError 500 []"

text \<open>Entries of a listing: a file, a folder, and one without \<open>path_display\<close>.\<close>

definition fileEntry :: jsvalue where
  "fileEntry =
     JObject [(lit ''.tag'', JString (lit ''file'')), (lit ''name'', JString (lit ''db.kdbx'')),
              (lit ''path_display'', JString (lit ''/vault/sub/db.kdbx'')),
              (lit ''rev'', JString (lit ''abc''))]"

definition folderEntry :: jsvalue where
  "folderEntry =
     JObject [(lit ''.tag'', JString (lit ''folder'')), (lit ''name'', JString (lit ''sub'')),
              (lit ''path_display'', JString (lit ''/Vault/sub''))]"

definition brokenEntry :: jsvalue where
  "brokenEntry = JObject [(lit ''.tag'', JString (lit ''file'')), (lit ''name'', JString (lit ''x''))]"

text \<open>Metadata whose \<open>.tag\<close> is neither \<open>file\<close> nor \<open>folder\<close>.\<close>

definition deletedEntry :: jsvalue where
  "deletedEntry = JObject [(lit ''.tag'', JString (lit ''deleted'')), (lit ''name'', JString (lit ''old.kdbx''))]"

text \<open>An environment whose \<open>oauthRevokeToken\<close> rejects.\<close>

definition revokeFailsEnv :: env where
  "revokeFailsEnv = (exampleEnv (Inl serverError))\<lparr>oauthRevokeToken := Some serverError\<rparr>"




section \<open>Path resolution\<close>

lemma fixSlashes_id: "\<not> hasDoubleSlash s \<Longrightarrow> fixSlashes s = s"
  by (induction s rule: fixSlashes.induct) auto

lemma fixSlashes_hd: "\<exists>q. fixSlashes (c # p) = c # q"
  by (induction p) auto

lemma fixSlashes_no_double: "\<not> hasDoubleSlash (fixSlashes s)"
proof (induction s rule: fixSlashes.induct)
  case (3 c d cs)
  obtain q where q: "fixSlashes (d # cs) = d # q"
    using fixSlashes_hd by blast
  with 3 show ?case by auto
qed simp_all

lemma fixSlashes_idem: "fixSlashes (fixSlashes s) = fixSlashes s"
  by (simp add: fixSlashes_id fixSlashes_no_double)

lemma fixSlashes_append_keep:
  "\<not> hasDoubleSlash r \<Longrightarrow> r \<noteq> [] \<Longrightarrow> last r \<noteq> SLASH \<Longrightarrow> fixSlashes (r @ b) = r @ fixSlashes b"
proof (induction r rule: fixSlashes.induct)
  case (2 c)
  then show ?case by (cases b) auto
qed auto

lemma fixSlashes_append_slash:
  "\<not> hasDoubleSlash (r0 @ [SLASH]) \<Longrightarrow>
   fixSlashes (r0 @ SLASH # SLASH # p) = r0 @ fixSlashes (SLASH # p)"
  by (induction r0 rule: fixSlashes.induct) auto

lemma fixSlashes_root:
  assumes "\<not> hasDoubleSlash r" "r \<noteq> []"
  shows "\<exists>rest. fixSlashes (r @ SLASH # p) = r @ rest
           \<and> fixSlashes (SLASH # rest) = fixSlashes (SLASH # p)
           \<and> (last r = SLASH \<or> (\<exists>q. rest = SLASH # q))"
proof (cases "last r = SLASH")
  case True
  with assms obtain r0 where r: "r = r0 @ [SLASH]"
    by (metis append_butlast_last_id)
  obtain q where q: "fixSlashes (SLASH # p) = SLASH # q"
    using fixSlashes_hd by blast
  have "fixSlashes (r @ SLASH # p) = r0 @ fixSlashes (SLASH # p)"
    using assms(1) r fixSlashes_append_slash by simp
  then have "fixSlashes (r @ SLASH # p) = r @ q"
    using q r by simp
  moreover have "fixSlashes (SLASH # q) = fixSlashes (SLASH # p)"
    using fixSlashes_idem [of "SLASH # p"] q by simp
  ultimately show ?thesis
    using True by blast
next
  case False
  obtain q where q: "fixSlashes (SLASH # p) = SLASH # q"
    using fixSlashes_hd by blast
  have "fixSlashes (r @ SLASH # p) = r @ fixSlashes (SLASH # p)"
    using assms False by (rule fixSlashes_append_keep)
  moreover have "fixSlashes (SLASH # fixSlashes (SLASH # p)) = fixSlashes (SLASH # p)"
    using fixSlashes_idem [of "SLASH # p"] q by simp
  ultimately show ?thesis
    using q by auto
qed

lemma startsWith_append: "startsWith (a @ b) a"
  by (induction a) auto

lemma indexFrom_prefix: "a \<noteq> [] \<Longrightarrow> indexFrom i (a @ b) a = i"
  by (cases a) (auto simp: startsWith_append)

lemma indexOf_at_0: "a \<noteq> [] \<Longrightarrow> indexOf (a @ b) a = 0"
  by (simp add: indexOf_def indexFrom_prefix)

lemma indexOf_at_1: "a \<noteq> [] \<Longrightarrow> hd a \<noteq> c \<Longrightarrow> indexOf (c # a @ b) a = 1"
  using indexFrom_prefix [of a 1 b] by (cases a) (auto simp: indexOf_def)

lemma slashWise_Nil: "slashWise lower \<Longrightarrow> lower [] = []"
  by (simp add: slashWise_def)

lemma slashWise_split: "slashWise lower \<Longrightarrow> lower (a @ SLASH # b) = lower a @ SLASH # lower b"
  by (simp add: slashWise_def)

lemma slashWise_Cons: "slashWise lower \<Longrightarrow> lower (SLASH # b) = SLASH # lower b"
  using slashWise_split [of lower "[]" b] by (simp add: slashWise_Nil)

lemma slashWise_no_slash: "slashWise lower \<Longrightarrow> SLASH \<notin> set a \<Longrightarrow> SLASH \<notin> set (lower a)"
  unfolding slashWise_def by blast

lemma slashWise_not_Nil: "slashWise lower \<Longrightarrow> r \<noteq> [] \<Longrightarrow> lower r \<noteq> []"
  by (simp add: slashWise_def)

lemma slashWise_hd:
  assumes "slashWise lower" "r \<noteq> []" "hd r \<noteq> SLASH"
  shows "hd (lower r) \<noteq> SLASH"
proof (cases "SLASH \<in> set r")
  case False
  then have "SLASH \<notin> set (lower r)"
    using assms(1) by (rule slashWise_no_slash [rotated])
  moreover have "lower r \<noteq> []"
    using assms(1,2) by (rule slashWise_not_Nil)
  ultimately show ?thesis
    by (cases "lower r") auto
next
  case True
  then obtain a b where r: "r = a @ SLASH # b" "SLASH \<notin> set a"
    by (auto dest: split_list_first)
  then have a: "a \<noteq> []"
    using assms(3) by (cases a) auto
  have n: "lower a \<noteq> []" "SLASH \<notin> set (lower a)"
    using assms(1) a r(2) by (simp_all add: slashWise_not_Nil slashWise_no_slash)
  have "lower r = lower a @ SLASH # lower b"
    using assms(1) r(1) by (simp add: slashWise_split)
  then show ?thesis
    using n by (cases "lower a") auto
qed

lemma slashWise_append:
  assumes "slashWise lower" "r \<noteq> []" "last r = SLASH \<or> (\<exists>q. rest = SLASH # q)"
  shows "lower (r @ rest) = lower r @ lower rest"
  using assms(3)
proof
  assume "last r = SLASH"
  with assms(2) obtain r0 where r: "r = r0 @ [SLASH]"
    by (metis append_butlast_last_id)
  have "lower (r @ rest) = lower r0 @ SLASH # lower rest"
    using assms(1) r by (simp add: slashWise_split)
  moreover have "lower r = lower r0 @ [SLASH]"
    using assms(1) r slashWise_split [of lower r0 "[]"] by (simp add: slashWise_Nil)
  ultimately show ?thesis by simp
next
  assume "\<exists>q. rest = SLASH # q"
  then obtain q where "rest = SLASH # q" by blast
  then show ?thesis
    using assms(1) by (simp add: slashWise_split slashWise_Cons)
qed

lemma toRelPath_at_1:
  assumes "dropboxFolder s = Some r" "r \<noteq> []" "lower path = SLASH # lower r @ t"
    "lower r \<noteq> []" "hd (lower r) \<noteq> SLASH"
  shows "toRelPath lower s path = fixSlashes (SLASH # drop (length r + 1) path)"
proof -
  have "indexOf (lower path) (lower r) = 1"
    using assms(3,4,5) indexOf_at_1 [of "lower r" SLASH t] by simp
  then show ?thesis
    using assms(1,2) by (simp add: toRelPath_def substr_def)
qed

lemma toRelPath_at_0:
  assumes "dropboxFolder s = Some r" "r \<noteq> []" "lower path = lower r @ t" "lower r \<noteq> []"
  shows "toRelPath lower s path = fixSlashes (SLASH # drop (length r) path)"
proof -
  have "indexOf (lower path) (lower r) = 0"
    using assms(3,4) indexOf_at_0 [of "lower r" t] by simp
  then show ?thesis
    using assms(1,2) by (simp add: toRelPath_def substr_def)
qed

lemma toRelPath_toFullPath:
  assumes "slashWise lower" "dropboxFolder s = Some r" "r \<noteq> []" "\<not> hasDoubleSlash r"
  shows "toRelPath lower s (toFullPath s p) = canonical p"
proof -
  obtain rest where rest: "fixSlashes (r @ SLASH # p) = r @ rest"
      "fixSlashes (SLASH # rest) = fixSlashes (SLASH # p)"
      "last r = SLASH \<or> (\<exists>q. rest = SLASH # q)"
    using fixSlashes_root [OF assms(4,3)] by blast
  have l: "lower (r @ rest) = lower r @ lower rest"
    using assms(1,3) rest(3) by (rule slashWise_append)
  have n: "lower r \<noteq> []"
    using assms(1,3) by (rule slashWise_not_Nil)
  show ?thesis
  proof (cases "hd r = SLASH")
    case True
    then obtain r1 where r: "r = SLASH # r1"
      using assms(3) by (cases r) auto
    have "toFullPath s p = fixSlashes (r @ SLASH # p)"
      using assms(2,3) r by (simp add: toFullPath_def)
    then have f: "toFullPath s p = r @ rest"
      using rest by simp
    show ?thesis
      using toRelPath_at_0 [of s r lower "toFullPath s p" "lower rest"] assms(2,3) n f l rest(2)
      by (simp add: canonical_def)
  next
    case False
    then obtain c r1 where r: "r = c # r1" "c \<noteq> SLASH"
      using assms(3) by (cases r) auto
    have "toFullPath s p = SLASH # fixSlashes (r @ SLASH # p)"
      using assms(2,3) r by (simp add: toFullPath_def)
    then have f: "toFullPath s p = SLASH # r @ rest"
      using rest by simp
    have h: "hd (lower r) \<noteq> SLASH"
      using assms(1,3) False by (rule slashWise_hd)
    have "lower (toFullPath s p) = SLASH # lower r @ lower rest"
      using f l assms(1) by (simp add: slashWise_Cons)
    then show ?thesis
      using toRelPath_at_1 [of s r lower "toFullPath s p" "lower rest"] assms(2,3) n h f rest(2)
      by (simp add: canonical_def)
  qed
qed

lemma toRelPath_ignores_case:
  assumes "slashWise lower" "dropboxFolder s = Some r" "r \<noteq> []" "hd r \<noteq> SLASH"
    "lower r' = lower r" "length r' = length r"
  shows "toRelPath lower s (SLASH # r' @ SLASH # q) = canonical q"
proof -
  have n: "lower r \<noteq> []"
    using assms(1,3) by (rule slashWise_not_Nil)
  have h: "hd (lower r) \<noteq> SLASH"
    using assms(1,3,4) by (rule slashWise_hd)
  have "lower (SLASH # r' @ SLASH # q) = SLASH # lower r @ SLASH # lower q"
    using assms(1,5) by (simp add: slashWise_Cons slashWise_split)
  then show ?thesis
    using toRelPath_at_1 [of s r lower "SLASH # r' @ SLASH # q" "SLASH # lower q"]
      assms(2,3,6) n h
    by (simp add: canonical_def)
qed

lemma lowerUnit_SLASH: "(lowerUnit c = SLASH) = (c = SLASH)"
  unfolding lowerUnit_def SLASH_def by auto

lemma asciiLowerCase_slashWise: "slashWise asciiLowerCase"
  unfolding slashWise_def asciiLowerCase_def
  by (auto simp: lowerUnit_SLASH) (metis lowerUnit_SLASH)

text \<open>The canonical form has its leading slash and no two adjacent slashes.\<close>

lemma canonical_shape: "(\<exists>q. canonical p = SLASH # q) \<and> \<not> hasDoubleSlash (canonical p)"
  using fixSlashes_hd [of SLASH p] by (simp add: canonical_def fixSlashes_no_double)

text \<open>
  C3, where the claim fails: the round trip does not hold for every root folder, and
  the root folder is not matched ignoring case when its lower-case form has another
  length. \<open>fixConfigFolder\<close> keeps the folder \<open>a//b\<close> as it is; with that root
  folder the logical path \<open>x\<close> resolves to \<open>/a/b/x\<close>, in which \<open>toRelPath\<close>
  does not find \<open>a//b\<close> (both are lower-case ASCII strings, which \<open>toLowerCase\<close>
  gives back as they are), so it comes back as \<open>/a/b/x\<close> and not as \<open>/x\<close>. With
  the root folder U+0130, the backend path made of a slash, \<open>i\<close>, U+0307, a slash and
  \<open>x\<close> is the path of \<open>x\<close> under the root folder, ignoring case; \<open>toRelPath\<close>
  finds the lower-case root folder at index 1 and strips the length of the root folder
  and one, two code units, so it gives a slash, U+0307, a slash and \<open>x\<close>, not \<open>/x\<close>.
\<close>

theorem path_round_trip_counterexample:
  "fixConfigFolder (lit ''a//b'') = lit ''a//b''
   \<and> toFullPath doubleSlashSettings (lit ''x'') = lit ''/a/b/x''
   \<and> asciiLowerCase (lit ''/a/b/x'') = lit ''/a/b/x''
   \<and> asciiLowerCase (lit ''a//b'') = lit ''a//b''
   \<and> toRelPath asciiLowerCase doubleSlashSettings (toFullPath doubleSlashSettings (lit ''x''))
       = lit ''/a/b/x''
   \<and> canonical (lit ''x'') = lit ''/x''
   \<and> toRelPath asciiLowerCase doubleSlashSettings (toFullPath doubleSlashSettings (lit ''x''))
       \<noteq> canonical (lit ''x'')
   \<and> dottedLowerCase (SLASH # [0x69, 0x307] @ SLASH # lit ''x'')
       = dottedLowerCase (SLASH # [0x130] @ SLASH # lit ''x'')
   \<and> toRelPath dottedLowerCase dottedSettings (SLASH # [0x69, 0x307] @ SLASH # lit ''x'')
       = SLASH # 0x307 # SLASH # lit ''x''
   \<and> toRelPath dottedLowerCase dottedSettings (SLASH # [0x69, 0x307] @ SLASH # lit ''x'')
       \<noteq> canonical (lit ''x'')"
proof -
  have 1: "fixConfigFolder (lit ''a//b'') = lit ''a//b''"
    by (simp add: fixConfigFolder_def trim_def isWhiteSpace_def lit_def BACKSLASH_def SLASH_def)
  have 2: "toFullPath doubleSlashSettings (lit ''x'') = lit ''/a/b/x''"
    by (simp add: toFullPath_def doubleSlashSettings_def lit_def SLASH_def)
  have 3: "asciiLowerCase (lit ''/a/b/x'') = lit ''/a/b/x''" "asciiLowerCase (lit ''a//b'') = lit ''a//b''"
    by (simp_all add: asciiLowerCase_def lowerUnit_def lit_def)
  have 4: "toRelPath asciiLowerCase doubleSlashSettings (lit ''/a/b/x'') = lit ''/a/b/x''"
    by (simp add: toRelPath_def doubleSlashSettings_def 3) (simp add: lit_def SLASH_def indexOf_def)
  have 5: "canonical (lit ''x'') = lit ''/x''"
    by (simp add: canonical_def lit_def SLASH_def)
  have 6: "dottedLowerCase (SLASH # [0x69, 0x307] @ SLASH # lit ''x'') = SLASH # [0x69, 0x307] @ SLASH # lit ''x''"
    "dottedLowerCase (SLASH # [0x130] @ SLASH # lit ''x'') = SLASH # [0x69, 0x307] @ SLASH # lit ''x''"
    "dottedLowerCase [0x130] = [0x69, 0x307]"
    by (simp_all add: dottedLowerCase_def lowerUnit_def lit_def SLASH_def)
  have 7: "toRelPath dottedLowerCase dottedSettings (SLASH # [0x69, 0x307] @ SLASH # lit ''x'')
       = SLASH # 0x307 # SLASH # lit ''x''"
    by (simp add: toRelPath_def dottedSettings_def dottedLowerCase_def lowerUnit_def lit_def
        SLASH_def indexOf_def substr_def)
  have 8: "SLASH # 0x307 # SLASH # lit ''x'' \<noteq> lit ''/x''" "lit ''/a/b/x'' \<noteq> lit ''/x''"
    by (simp_all add: lit_def SLASH_def)
  show ?thesis
    using 1 2 3 4 5 6(1,2) 7 8 by simp
qed

text \<open>
  C3 as amended: with the root folder \<open>Vault\<close>, \<open>db.kdbx\<close> resolves to
  \<open>/Vault/db.kdbx\<close>, and \<open>/vault/sub/db.kdbx\<close> resolves back to \<open>/sub/db.kdbx\<close>
  (\<open>toLowerCase\<close> giving \<open>vault\<close> for \<open>Vault\<close> and leaving the path as it is).
  For every logical path \<open>p\<close> and every non-empty root folder \<open>r\<close> without two
  adjacent slashes, \<open>toRelPath (toFullPath p)\<close> is the canonical form of \<open>p\<close>. The
  root folder is matched ignoring case as far as the lengths agree: when \<open>r\<close> does
  not start with a slash, a backend path made of a slash, any \<open>r'\<close> with the length
  and the lower-case form of \<open>r\<close>, a slash and \<open>q\<close> resolves to the canonical form
  of \<open>q\<close>. The two general statements hold for every \<open>toLowerCase\<close> that works
  segment by segment between slashes.
\<close>

theorem path_round_trip:
  "toFullPath vaultSettings (lit ''db.kdbx'') = lit ''/Vault/db.kdbx''
   \<and> (lower (lit ''/vault/sub/db.kdbx'') = lit ''/vault/sub/db.kdbx''
        \<and> lower (lit ''Vault'') = lit ''vault''
        \<longrightarrow> toRelPath lower vaultSettings (lit ''/vault/sub/db.kdbx'') = lit ''/sub/db.kdbx'')
   \<and> (slashWise lower \<and> dropboxFolder s = Some r \<and> r \<noteq> [] \<and> \<not> hasDoubleSlash r
        \<longrightarrow> toRelPath lower s (toFullPath s p) = canonical p)
   \<and> (slashWise lower \<and> dropboxFolder s = Some r \<and> r \<noteq> [] \<and> hd r \<noteq> SLASH
        \<and> lower r' = lower r \<and> length r' = length r
        \<longrightarrow> toRelPath lower s (SLASH # r' @ SLASH # q) = canonical q)"
proof -
  have 1: "toFullPath vaultSettings (lit ''db.kdbx'') = lit ''/Vault/db.kdbx''"
    by (simp add: toFullPath_def vaultSettings_def lit_def SLASH_def)
  have 2: "toRelPath lower vaultSettings (lit ''/vault/sub/db.kdbx'') = lit ''/sub/db.kdbx''"
    if "lower (lit ''/vault/sub/db.kdbx'') = lit ''/vault/sub/db.kdbx''"
      "lower (lit ''Vault'') = lit ''vault''"
    using that
    by (simp add: toRelPath_def vaultSettings_def) (simp add: lit_def SLASH_def indexOf_def substr_def)
  have 3: "toRelPath lower s (toFullPath s p) = canonical p"
    if "slashWise lower" "dropboxFolder s = Some r" "r \<noteq> []" "\<not> hasDoubleSlash r"
    using that by (rule toRelPath_toFullPath)
  have 4: "toRelPath lower s (SLASH # r' @ SLASH # q) = canonical q"
    if "slashWise lower" "dropboxFolder s = Some r" "r \<noteq> []" "hd r \<noteq> SLASH"
      "lower r' = lower r" "length r' = length r"
    using that by (rule toRelPath_ignores_case)
  show ?thesis
    using 1 2 3 4 by blast
qed

theorem path_round_trip_witness:
  "asciiLowerCase (lit ''/vault/sub/db.kdbx'') = lit ''/vault/sub/db.kdbx''
   \<and> asciiLowerCase (lit ''Vault'') = lit ''vault''
   \<and> toRelPath asciiLowerCase vaultSettings (lit ''/vault/sub/db.kdbx'') = lit ''/sub/db.kdbx''
   \<and> slashWise asciiLowerCase
   \<and> dropboxFolder vaultSettings = Some (lit ''Vault'') \<and> lit ''Vault'' \<noteq> []
   \<and> \<not> hasDoubleSlash (lit ''Vault'') \<and> hd (lit ''Vault'') \<noteq> SLASH
   \<and> asciiLowerCase (lit ''VAULT'') = asciiLowerCase (lit ''Vault'')
   \<and> length (lit ''VAULT'') = length (lit ''Vault'')
   \<and> toRelPath asciiLowerCase vaultSettings (toFullPath vaultSettings (lit ''sub//db.kdbx''))
       = lit ''/sub/db.kdbx''
   \<and> toRelPath asciiLowerCase vaultSettings (SLASH # lit ''VAULT'' @ SLASH # lit ''db.kdbx'')
       = lit ''/db.kdbx''"
proof -
  have a: "asciiLowerCase (lit ''/vault/sub/db.kdbx'') = lit ''/vault/sub/db.kdbx''"
    "asciiLowerCase (lit ''Vault'') = lit ''vault''"
    "asciiLowerCase (lit ''VAULT'') = asciiLowerCase (lit ''Vault'')"
    by (simp_all add: asciiLowerCase_def lowerUnit_def lit_def)
  have h: "dropboxFolder vaultSettings = Some (lit ''Vault'')" "lit ''Vault'' \<noteq> []"
    "\<not> hasDoubleSlash (lit ''Vault'')" "hd (lit ''Vault'') \<noteq> SLASH"
    "length (lit ''VAULT'') = length (lit ''Vault'')"
    by (simp_all add: vaultSettings_def lit_def SLASH_def)
  have c: "canonical (lit ''sub//db.kdbx'') = lit ''/sub/db.kdbx''"
    "canonical (lit ''db.kdbx'') = lit ''/db.kdbx''"
    by (simp_all add: canonical_def lit_def SLASH_def)
  note t = path_round_trip [of asciiLowerCase vaultSettings "lit ''Vault''" "lit ''sub//db.kdbx''"
      "lit ''VAULT''" "lit ''db.kdbx''"]
  have 1: "toRelPath asciiLowerCase vaultSettings (lit ''/vault/sub/db.kdbx'') = lit ''/sub/db.kdbx''"
    using t a by blast
  have 2: "toRelPath asciiLowerCase vaultSettings (toFullPath vaultSettings (lit ''sub//db.kdbx''))
       = lit ''/sub/db.kdbx''"
    using t h c(1) asciiLowerCase_slashWise by simp
  have 3: "toRelPath asciiLowerCase vaultSettings (SLASH # lit ''VAULT'' @ SLASH # lit ''db.kdbx'')
       = lit ''/db.kdbx''"
    using t a h c(2) asciiLowerCase_slashWise by simp
  show ?thesis
    using a h 1 2 3 asciiLowerCase_slashWise by blast
qed

section \<open>The header encoding\<close>

lemma div_16_16: "(n::nat) div 16 div 16 = n div 256"
  using div_mult2_eq [of n 16 16] by simp

lemma div_16_256: "(n::nat) div 16 div 256 = n div 4096"
  using div_mult2_eq [of n 16 256] by simp

lemma unat_code_unit: "unat (c :: code_unit) < 65536"
  using unsigned_less [of c, where 'a = nat] by simp

lemma toString16_1: "n < 16 \<Longrightarrow> toString16 n = [hexDigit n]"
  by (simp add: toString16.simps)

lemma toString16_2:
  "16 \<le> n \<Longrightarrow> n < 256 \<Longrightarrow> toString16 n = [hexDigit (n div 16), hexDigit (n mod 16)]"
  using toString16.simps [of n] toString16_1 [of "n div 16"] by simp

lemma toString16_3:
  "256 \<le> n \<Longrightarrow> n < 4096 \<Longrightarrow>
   toString16 n = [hexDigit (n div 256), hexDigit (n div 16 mod 16), hexDigit (n mod 16)]"
  using toString16.simps [of n] toString16_2 [of "n div 16"] by (simp add: div_16_16)

lemma toString16_4:
  "4096 \<le> n \<Longrightarrow> n < 65536 \<Longrightarrow>
   toString16 n = [hexDigit (n div 4096), hexDigit (n div 256 mod 16), hexDigit (n div 16 mod 16),
                   hexDigit (n mod 16)]"
  using toString16.simps [of n] toString16_3 [of "n div 16"] by (simp add: div_16_16 div_16_256)

lemma nat_below_16: "(d::nat) < 16 \<Longrightarrow> d = 0 \<or> d = 1 \<or> d = 2 \<or> d = 3 \<or> d = 4 \<or> d = 5 \<or> d = 6 \<or> d = 7 \<or> d = 8
      \<or> d = 9 \<or> d = 10 \<or> d = 11 \<or> d = 12 \<or> d = 13 \<or> d = 14 \<or> d = 15"
  by arith

lemma hexDigit_range: "d < 16 \<Longrightarrow> 0x30 \<le> hexDigit d \<and> hexDigit d \<le> 0x66"
  by (drule nat_below_16) (elim disjE, simp_all add: hexDigit_def)

lemma lit_000: "lit ''000'' = [0x30, 0x30, 0x30]"
  by (simp add: lit_def)

lemma hexDigit_0: "hexDigit 0 = 0x30"
  by (simp add: hexDigit_def)

lemma pad4:
  assumes "n < 65536"
  shows "sliceLast4 (lit ''000'' @ toString16 n) =
     [hexDigit (n div 4096), hexDigit (n div 256 mod 16), hexDigit (n div 16 mod 16), hexDigit (n mod 16)]"
proof -
  consider "n < 16" | "16 \<le> n" "n < 256" | "256 \<le> n" "n < 4096" | "4096 \<le> n"
    by linarith
  then show ?thesis
  proof cases
    case 1
    then show ?thesis
      by (simp add: toString16_1 lit_000 sliceLast4_def hexDigit_0)
  next
    case 2
    then have "n div 256 = 0" "n div 4096 = 0" by simp_all
    with 2 show ?thesis
      by (simp add: toString16_2 lit_000 sliceLast4_def hexDigit_0)
  next
    case 3
    then have "n div 4096 = 0" "n div 256 mod 16 = n div 256" by simp_all
    with 3 show ?thesis
      by (simp add: toString16_3 lit_000 sliceLast4_def hexDigit_0)
  next
    case 4
    with assms show ?thesis
      by (simp add: toString16_4 lit_000 sliceLast4_def)
  qed
qed

lemma escapeUnit_digits:
  "escapeUnit c = [BACKSLASH, 0x75, hexDigit (unat c div 4096), hexDigit (unat c div 256 mod 16),
                   hexDigit (unat c div 16 mod 16), hexDigit (unat c mod 16)]"
proof -
  show ?thesis
    by (simp add: escapeUnit_def pad4 unat_code_unit)
qed

lemma escape_fun:
  "(\<lambda>c. if 0x7F \<le> c then escapeUnit c else [c]) =
      (\<lambda>c. if c < 0x7F then [c]
            else [BACKSLASH, 0x75, hexDigit (unat c div 4096), hexDigit (unat c div 256 mod 16),
                  hexDigit (unat c div 16 mod 16), hexDigit (unat c mod 16)])"
  by (rule ext) (auto simp: not_less escapeUnit_digits)

lemma escapeUnit_printable: "u \<in> set (escapeUnit c) \<Longrightarrow> 0x20 \<le> u \<and> u < 0x7F"
proof -
  assume u: "u \<in> set (escapeUnit c)"
  have lt: "unat c < 65536"
    by (rule unat_code_unit)
  have d: "unat c div 4096 < 16" "unat c div 256 mod 16 < 16" "unat c div 16 mod 16 < 16" "unat c mod 16 < 16"
    using lt by simp_all
  have r: "\<And>d. d < 16 \<Longrightarrow> 0x20 \<le> hexDigit d \<and> hexDigit d < 0x7F"
  proof -
    fix d :: nat assume "d < 16"
    then have "0x30 \<le> hexDigit d \<and> hexDigit d \<le> 0x66" by (rule hexDigit_range)
    then show "0x20 \<le> hexDigit d \<and> hexDigit d < 0x7F"
      by (auto elim: order_trans [rotated] simp: word_le_nat_alt word_less_nat_alt)
  qed
  from u have "u = BACKSLASH \<or> u = 0x75 \<or> u = hexDigit (unat c div 4096)
      \<or> u = hexDigit (unat c div 256 mod 16) \<or> u = hexDigit (unat c div 16 mod 16)
      \<or> u = hexDigit (unat c mod 16)"
    by (simp add: escapeUnit_digits)
  then show ?thesis
    using r [OF d(1)] r [OF d(2)] r [OF d(3)] r [OF d(4)]
    by (elim disjE) (simp_all add: BACKSLASH_def)
qed

lemma encode_units:
  "u \<in> set (encodeJsonHttpHeader json) \<Longrightarrow>
   (u \<in> set json \<and> u < 0x7F) \<or> (0x20 \<le> u \<and> u < 0x7F)"
  by (auto simp: encodeJsonHttpHeader_def not_le dest: escapeUnit_printable split: if_splits)

text \<open>
  C6: for every input string, \<open>encodeJsonHttpHeader\<close> keeps each code unit below
  0x7F and replaces each code unit from 0x7F on by a backslash, \<open>u\<close> and the four
  lowercase hexadecimal digits of the code unit; so every code unit of the result is
  below 0x7F, and none is a control character when the input (a JSON text, in which
  \<open>JSON.stringify\<close> leaves no code unit below 0x20) has none. The result for
  \<open>JSON.stringify(args.apiArg)\<close> is the value of the header \<open>Dropbox-API-Arg\<close>.
\<close>

theorem encodeJsonHttpHeader_ascii:
  "encodeJsonHttpHeader json =
     concat (map (\<lambda>c. if c < 0x7F then [c]
                      else [BACKSLASH, 0x75, hexDigit (unat c div 4096), hexDigit (unat c div 256 mod 16),
                            hexDigit (unat c div 16 mod 16), hexDigit (unat c mod 16)]) json)
   \<and> (\<forall>u \<in> set (encodeJsonHttpHeader json). u < 0x7F)
   \<and> ((\<forall>c \<in> set json. 0x20 \<le> c) \<longrightarrow> (\<forall>u \<in> set (encodeJsonHttpHeader json). 0x20 \<le> u \<and> u < 0x7F))
   \<and> (arg_apiArg args = Some a \<longrightarrow>
        cfg_headers (apiRequest env args) =
          [(lit ''Dropbox-API-Arg'', encodeJsonHttpHeader (JSON_stringify env a))])"
proof -
  have 1: "encodeJsonHttpHeader json =
     concat (map (\<lambda>c. if c < 0x7F then [c]
                      else [BACKSLASH, 0x75, hexDigit (unat c div 4096), hexDigit (unat c div 256 mod 16),
                            hexDigit (unat c div 16 mod 16), hexDigit (unat c mod 16)]) json)"
    by (simp add: encodeJsonHttpHeader_def escape_fun)
  have 2: "\<forall>u \<in> set (encodeJsonHttpHeader json). u < 0x7F"
    using encode_units by blast
  have 3: "(\<forall>c \<in> set json. 0x20 \<le> c) \<longrightarrow> (\<forall>u \<in> set (encodeJsonHttpHeader json). 0x20 \<le> u \<and> u < 0x7F)"
    using encode_units by blast
  have 4: "arg_apiArg args = Some a \<longrightarrow>
        cfg_headers (apiRequest env args) =
          [(lit ''Dropbox-API-Arg'', encodeJsonHttpHeader (JSON_stringify env a))]"
    by (simp add: apiRequest_def Let_def)
  show ?thesis
    using 1 2 3 4 by blast
qed

theorem encodeJsonHttpHeader_ascii_witness:
  "list_all (\<lambda>c. 0x20 \<le> c) exampleJson
   \<and> encodeJsonHttpHeader exampleJson = [0x7B, 0x22, 0x5C, 0x75, 0x30, 0x30, 0x65, 0x39, 0x22, 0x7D]
   \<and> list_all (\<lambda>u. 0x20 \<le> u \<and> u < 0x7F) (encodeJsonHttpHeader exampleJson)
   \<and> arg_apiArg (saveArgs [] (saveArg (lit ''/Vault/db.kdbx'') None))
       = Some (saveArg (lit ''/Vault/db.kdbx'') None)
   \<and> cfg_headers (apiRequest (exampleEnv (okResponse JNull))
         (saveArgs [] (saveArg (lit ''/Vault/db.kdbx'') None)))
       = [(lit ''Dropbox-API-Arg'', [0x7B, 0x22, 0x5C, 0x75, 0x30, 0x30, 0x65, 0x39, 0x22, 0x7D])]"
proof -
  have v: "encodeJsonHttpHeader exampleJson = [0x7B, 0x22, 0x5C, 0x75, 0x30, 0x30, 0x65, 0x39, 0x22, 0x7D]"
    by (simp add: encodeJsonHttpHeader_def exampleJson_def escapeUnit_def sliceLast4_def lit_def
        toString16.simps hexDigit_def BACKSLASH_def)
  have j: "JSON_stringify (exampleEnv (okResponse JNull)) a = exampleJson" for a
    by (simp add: exampleEnv_def)
  have a: "arg_apiArg (saveArgs [] (saveArg (lit ''/Vault/db.kdbx'') None))
      = Some (saveArg (lit ''/Vault/db.kdbx'') None)"
    by (simp add: saveArgs_def)
  have i: "list_all (\<lambda>c. 0x20 \<le> c) exampleJson"
    by (simp add: exampleJson_def)
  have p: "list_all (\<lambda>u. 0x20 \<le> u \<and> u < 0x7F) (encodeJsonHttpHeader exampleJson)"
    using i encodeJsonHttpHeader_ascii [of exampleJson "saveArgs [] (saveArg (lit ''/Vault/db.kdbx'') None)"
        "saveArg (lit ''/Vault/db.kdbx'') None" "exampleEnv (okResponse JNull)"]
    unfolding list_all_iff by blast
  have h: "cfg_headers (apiRequest (exampleEnv (okResponse JNull))
         (saveArgs [] (saveArg (lit ''/Vault/db.kdbx'') None)))
       = [(lit ''Dropbox-API-Arg'', encodeJsonHttpHeader exampleJson)]"
    using a j encodeJsonHttpHeader_ascii [of exampleJson "saveArgs [] (saveArg (lit ''/Vault/db.kdbx'') None)"
        "saveArg (lit ''/Vault/db.kdbx'') None" "exampleEnv (okResponse JNull)"]
    by metis
  show ?thesis
    using i v p a h by metis
qed

section \<open>The API call\<close>

lemma settings_emit: "settings (emit ev w) = settings w"
  by (simp add: emit_def)

lemma effects_emit: "effects (emit ev w) = effects w @ [ev]"
  by (simp add: emit_def)

lemma exampleEnv_oauth: "oauthAuthorize (exampleEnv x) = None"
  by (simp add: exampleEnv_def)

lemma exampleEnv_xhr: "xhr (exampleEnv x) cfg = x"
  by (simp add: exampleEnv_def)

lemma apiCall_resolved:
  "oauthAuthorize env = None \<Longrightarrow> xhr env (apiRequest env args) = Inr response \<Longrightarrow>
   apiCall env args w = (Inr response, emit (Xhr (apiRequest env args)) (emit OAuthAuthorize w))"
  by (simp add: apiCall_def Let_def)

lemma apiCall_rejected:
  "oauthAuthorize env = None \<Longrightarrow> xhr env (apiRequest env args) = Inl e \<Longrightarrow>
   apiCall env args w = (Inl (apiError e), emit (Xhr (apiRequest env args)) (emit OAuthAuthorize w))"
  by (simp add: apiCall_def Let_def)

lemma apiError_not_found: "notFoundBody e \<Longrightarrow> apiError e = StorageFileNotFoundError"
  by (auto simp: notFoundBody_def apiError_def lookupProp_def split: option.splits jsvalue.splits)

lemma apiError_other:
  "\<not> notFoundBody e \<Longrightarrow>
   apiError e = Error (lit ''API error, status code '' @ numberToString (thrownStatus e))"
proof -
  assume n: "\<not> notFoundBody e"
  let ?p = "lookupProp (thrownProps e) (lit ''path'')"
  have "\<not> (truthyValue ?p \<and> typeof ?p = TObject
       \<and> getProp ?p (lit ''.tag'') = Inr (JString (lit ''not_found'')))"
  proof (cases "map_of (thrownProps e) (lit ''path'')")
    case None
    then show ?thesis by (simp add: lookupProp_def)
  next
    case (Some v)
    then show ?thesis
      using n by (cases v) (auto simp: lookupProp_def notFoundBody_def split: option.splits)
  qed
  then show ?thesis
    by (simp add: apiError_def Let_def)
qed

text \<open>
  C2: when the call is authorized and the transport rejects with \<open>e\<close>: if the error
  body has a \<open>path\<close> object whose \<open>.tag\<close> is \<open>not_found\<close>, \<open>apiCall\<close> fails with
  \<open>StorageFileNotFoundError\<close>, whatever the status; otherwise it fails with the
  generic error whose message is \<open>API error, status code\<close> and the status of \<open>e\<close>.
\<close>

theorem apiCall_error_mapping:
  "oauthAuthorize env = None \<and> xhr env (apiRequest env args) = Inl e \<longrightarrow>
     (notFoundBody e \<longrightarrow> fst (apiCall env args w) = Inl StorageFileNotFoundError)
     \<and> (\<not> notFoundBody e \<longrightarrow>
          fst (apiCall env args w) =
            Inl (Error (lit ''API error, status code '' @ numberToString (thrownStatus e))))"
  by (auto simp: apiCall_rejected apiError_not_found apiError_other)

lemma numberToString_409: "numberToString 409 = lit ''409''"
  by (simp add: numberToString_def digitsOf.simps lit_def)

lemma numberToString_500: "numberToString 500 = lit ''500''"
  by (simp add: numberToString_def digitsOf.simps lit_def)

theorem apiCall_error_mapping_witness:
  "oauthAuthorize (exampleEnv (Inl notFoundError)) = None
   \<and> xhr (exampleEnv (Inl notFoundError)) (apiRequest (exampleEnv (Inl notFoundError)) (statArgs (exampleEnv (Inl notFoundError)) (lit ''/Vault/db.kdbx''))) = Inl notFoundError
   \<and> notFoundBody notFoundError
   \<and> thrownStatus notFoundError = 409
   \<and> fst (apiCall (exampleEnv (Inl notFoundError)) (statArgs (exampleEnv (Inl notFoundError)) (lit ''/Vault/db.kdbx'')) exampleWorld)
       = Inl StorageFileNotFoundError
   \<and> oauthAuthorize (exampleEnv (Inl serverError)) = None
   \<and> xhr (exampleEnv (Inl serverError)) (apiRequest (exampleEnv (Inl serverError)) (statArgs (exampleEnv (Inl serverError)) (lit ''/Vault/db.kdbx''))) = Inl serverError
   \<and> \<not> notFoundBody serverError
   \<and> fst (apiCall (exampleEnv (Inl serverError)) (statArgs (exampleEnv (Inl serverError)) (lit ''/Vault/db.kdbx'')) exampleWorld)
       = Inl (Error (lit ''API error, status code 500''))"
proof -
  have a: "oauthAuthorize (exampleEnv x) = None" "xhr (exampleEnv x) cfg = x" for x cfg
    by (simp_all add: exampleEnv_def)
  have b: "notFoundBody notFoundError" "thrownStatus notFoundError = 409"
    by (simp_all add: notFoundBody_def notFoundError_def lit_def)
  have c: "\<not> notFoundBody serverError" "thrownStatus serverError = 500"
    by (simp_all add: notFoundBody_def serverError_def)
  have d: "lit ''API error, status code '' @ lit ''500'' = lit ''API error, status code 500''"
    by (simp add: lit_def)
  show ?thesis
    using a b c d numberToString_500
      apiCall_error_mapping [of "exampleEnv (Inl notFoundError)"
        "statArgs (exampleEnv (Inl notFoundError)) (lit ''/Vault/db.kdbx'')" notFoundError exampleWorld]
      apiCall_error_mapping [of "exampleEnv (Inl serverError)"
        "statArgs (exampleEnv (Inl serverError)) (lit ''/Vault/db.kdbx'')" serverError exampleWorld]
    by simp
qed

section \<open>stat\<close>

lemma stat_resolved:
  "oauthAuthorize env = None \<Longrightarrow>
   xhr env (apiRequest env (statArgs env (toFullPath (settings w) path))) = Inr response \<Longrightarrow>
   fst (stat env path w) = statResult (resp_data response)"
  by (simp add: stat_def Let_def apiCall_resolved)

lemma stat_results:
  "fst (stat env path w) = Inr st \<Longrightarrow>
   \<exists>response. xhr env (apiRequest env (statArgs env (toFullPath (settings w) path))) = Inr response
     \<and> statResult (resp_data response) = Inr st"
  by (auto simp: stat_def Let_def apiCall_def split: option.splits sum.splits)

lemma lit_file_folder: "lit ''file'' \<noteq> lit ''folder''"
  by (simp add: lit_def)

text \<open>
  C5: when the call is authorized and the transport resolves: a \<open>.tag\<close> of \<open>file\<close>
  gives the \<open>rev\<close> of the response if it is a string and the empty result if it is
  not; \<open>folder\<close> gives \<open>folder: true\<close>; any other string fails with the error
  \<open>Bad .tag\<close>, a \<open>.tag\<close> that is missing or not a string with
  \<open>.tag not found in response\<close>, and a response without data with the runtime's
  \<open>TypeError\<close>: whenever the \<open>.tag\<close> is neither \<open>file\<close> nor \<open>folder\<close>,
  \<open>stat\<close> fails.
\<close>

theorem stat_discriminator:
  "oauthAuthorize env = None
   \<and> xhr env (apiRequest env (statArgs env (toFullPath (settings w) path))) = Inr response \<longrightarrow>
     (getProp (resp_data response) (lit ''.tag'') = Inr (JString (lit ''file''))
        \<and> getProp (resp_data response) (lit ''rev'') = Inr (JString r)
        \<longrightarrow> fst (stat env path w) = Inr \<lparr>stat_rev = Some r, stat_folder = None\<rparr>)
     \<and> (getProp (resp_data response) (lit ''.tag'') = Inr (JString (lit ''file''))
        \<and> typeof (optProp (resp_data response) (lit ''rev'')) \<noteq> TString
        \<longrightarrow> fst (stat env path w) = Inr \<lparr>stat_rev = None, stat_folder = None\<rparr>)
     \<and> (getProp (resp_data response) (lit ''.tag'') = Inr (JString (lit ''folder''))
        \<longrightarrow> fst (stat env path w) = Inr \<lparr>stat_rev = None, stat_folder = Some True\<rparr>)
     \<and> (getProp (resp_data response) (lit ''.tag'') = Inr (JString t)
        \<and> t \<noteq> lit ''file'' \<and> t \<noteq> lit ''folder''
        \<longrightarrow> fst (stat env path w) = Inl (Error (lit ''Bad .tag: '' @ t)))
     \<and> (getProp (resp_data response) (lit ''.tag'') = Inr tag \<and> typeof tag \<noteq> TString
        \<longrightarrow> fst (stat env path w) = Inl (Error (lit ''.tag not found in response'')))
     \<and> (nullish (resp_data response) \<longrightarrow> fst (stat env path w) = Inl TypeError)
     \<and> (getProp (resp_data response) (lit ''.tag'') \<noteq> Inr (JString (lit ''file''))
        \<and> getProp (resp_data response) (lit ''.tag'') \<noteq> Inr (JString (lit ''folder''))
        \<longrightarrow> isl (fst (stat env path w)))"
proof (intro impI, elim conjE)
  assume a: "oauthAuthorize env = None"
    "xhr env (apiRequest env (statArgs env (toFullPath (settings w) path))) = Inr response"
  let ?d = "resp_data response"
  have s: "fst (stat env path w) = statResult ?d"
    using a by (rule stat_resolved)
  have 1: "getProp ?d (lit ''.tag'') = Inr (JString (lit ''file''))
        \<and> getProp ?d (lit ''rev'') = Inr (JString r)
        \<longrightarrow> statResult ?d = Inr \<lparr>stat_rev = Some r, stat_folder = None\<rparr>"
    by (simp add: statResult_def)
  have 2: "getProp ?d (lit ''.tag'') = Inr (JString (lit ''file''))
        \<and> typeof (optProp ?d (lit ''rev'')) \<noteq> TString
        \<longrightarrow> statResult ?d = Inr \<lparr>stat_rev = None, stat_folder = None\<rparr>"
    by (cases ?d) (auto simp: statResult_def optProp_def split: jsvalue.splits)
  have 3: "getProp ?d (lit ''.tag'') = Inr (JString (lit ''folder''))
        \<longrightarrow> statResult ?d = Inr \<lparr>stat_rev = None, stat_folder = Some True\<rparr>"
    using lit_file_folder by (simp add: statResult_def)
  have 4: "getProp ?d (lit ''.tag'') = Inr (JString t) \<and> t \<noteq> lit ''file'' \<and> t \<noteq> lit ''folder''
        \<longrightarrow> statResult ?d = Inl (Error (lit ''Bad .tag: '' @ t))"
    by (simp add: statResult_def)
  have 5: "getProp ?d (lit ''.tag'') = Inr tag \<and> typeof tag \<noteq> TString
        \<longrightarrow> statResult ?d = Inl (Error (lit ''.tag not found in response''))"
    by (cases tag) (simp_all add: statResult_def)
  have 6: "nullish ?d \<longrightarrow> statResult ?d = Inl TypeError"
    by (cases ?d) (simp_all add: statResult_def)
  have 7: "getProp ?d (lit ''.tag'') \<noteq> Inr (JString (lit ''file''))
        \<and> getProp ?d (lit ''.tag'') \<noteq> Inr (JString (lit ''folder''))
        \<longrightarrow> isl (statResult ?d)"
    by (auto simp: statResult_def split: sum.splits jsvalue.splits)
  show "(getProp ?d (lit ''.tag'') = Inr (JString (lit ''file''))
        \<and> getProp ?d (lit ''rev'') = Inr (JString r)
        \<longrightarrow> fst (stat env path w) = Inr \<lparr>stat_rev = Some r, stat_folder = None\<rparr>)
     \<and> (getProp ?d (lit ''.tag'') = Inr (JString (lit ''file''))
        \<and> typeof (optProp ?d (lit ''rev'')) \<noteq> TString
        \<longrightarrow> fst (stat env path w) = Inr \<lparr>stat_rev = None, stat_folder = None\<rparr>)
     \<and> (getProp ?d (lit ''.tag'') = Inr (JString (lit ''folder''))
        \<longrightarrow> fst (stat env path w) = Inr \<lparr>stat_rev = None, stat_folder = Some True\<rparr>)
     \<and> (getProp ?d (lit ''.tag'') = Inr (JString t)
        \<and> t \<noteq> lit ''file'' \<and> t \<noteq> lit ''folder''
        \<longrightarrow> fst (stat env path w) = Inl (Error (lit ''Bad .tag: '' @ t)))
     \<and> (getProp ?d (lit ''.tag'') = Inr tag \<and> typeof tag \<noteq> TString
        \<longrightarrow> fst (stat env path w) = Inl (Error (lit ''.tag not found in response'')))
     \<and> (nullish ?d \<longrightarrow> fst (stat env path w) = Inl TypeError)
     \<and> (getProp ?d (lit ''.tag'') \<noteq> Inr (JString (lit ''file''))
        \<and> getProp ?d (lit ''.tag'') \<noteq> Inr (JString (lit ''folder''))
        \<longrightarrow> isl (fst (stat env path w)))"
    unfolding s using 1 2 3 4 5 6 7 by blast
qed

lemma fileEntry_props:
  "getProp fileEntry (lit ''.tag'') = Inr (JString (lit ''file''))"
  "getProp fileEntry (lit ''rev'') = Inr (JString (lit ''abc''))"
  by (simp_all add: fileEntry_def lookupProp_def lit_def)

lemma folderEntry_props:
  "getProp folderEntry (lit ''.tag'') = Inr (JString (lit ''folder''))"
  by (simp_all add: folderEntry_def lookupProp_def lit_def)

lemma deletedEntry_props:
  "getProp deletedEntry (lit ''.tag'') = Inr (JString (lit ''deleted''))"
  "lit ''deleted'' \<noteq> lit ''file''" "lit ''deleted'' \<noteq> lit ''folder''"
  "lit ''Bad .tag: '' @ lit ''deleted'' = lit ''Bad .tag: deleted''"
  by (simp_all add: deletedEntry_def lookupProp_def lit_def)

theorem stat_discriminator_witness:
  "fst (stat (exampleEnv (okResponse fileEntry)) (lit ''db.kdbx'') exampleWorld)
     = Inr \<lparr>stat_rev = Some (lit ''abc''), stat_folder = None\<rparr>
   \<and> fst (stat (exampleEnv (okResponse folderEntry)) (lit ''sub'') exampleWorld)
     = Inr \<lparr>stat_rev = None, stat_folder = Some True\<rparr>
   \<and> fst (stat (exampleEnv (okResponse deletedEntry)) (lit ''old.kdbx'') exampleWorld)
     = Inl (Error (lit ''Bad .tag: deleted''))
   \<and> fst (stat (exampleEnv (okResponse JNull)) (lit ''db.kdbx'') exampleWorld) = Inl TypeError
   \<and> fst (stat (exampleEnv (okResponse (JObject []))) (lit ''db.kdbx'') exampleWorld)
     = Inl (Error (lit ''.tag not found in response''))
   \<and> fst (stat (exampleEnv (okResponse brokenEntry)) (lit ''x'') exampleWorld)
     = Inr \<lparr>stat_rev = None, stat_folder = None\<rparr>
   \<and> isl (fst (stat (exampleEnv (okResponse deletedEntry)) (lit ''old.kdbx'') exampleWorld))"
proof -
  have 1: "fst (stat (exampleEnv (okResponse fileEntry)) (lit ''db.kdbx'') exampleWorld)
     = Inr \<lparr>stat_rev = Some (lit ''abc''), stat_folder = None\<rparr>"
    using fileEntry_props
      stat_discriminator [of "exampleEnv (okResponse fileEntry)" exampleWorld "lit ''db.kdbx''"
        "\<lparr>resp_status = 200, resp_data = fileEntry, resp_headers = []\<rparr>" "lit ''abc''"]
    by (simp add: exampleEnv_oauth exampleEnv_xhr okResponse_def)
  have 2: "fst (stat (exampleEnv (okResponse folderEntry)) (lit ''sub'') exampleWorld)
     = Inr \<lparr>stat_rev = None, stat_folder = Some True\<rparr>"
    using folderEntry_props
      stat_discriminator [of "exampleEnv (okResponse folderEntry)" exampleWorld "lit ''sub''"
        "\<lparr>resp_status = 200, resp_data = folderEntry, resp_headers = []\<rparr>"]
    by (simp add: exampleEnv_oauth exampleEnv_xhr okResponse_def)
  have 3: "fst (stat (exampleEnv (okResponse deletedEntry)) (lit ''old.kdbx'') exampleWorld)
     = Inl (Error (lit ''Bad .tag: deleted''))"
    using deletedEntry_props
      stat_discriminator [of "exampleEnv (okResponse deletedEntry)" exampleWorld "lit ''old.kdbx''"
        "\<lparr>resp_status = 200, resp_data = deletedEntry, resp_headers = []\<rparr>" _ "lit ''deleted''"]
    by (simp add: exampleEnv_oauth exampleEnv_xhr okResponse_def)
  have 4: "fst (stat (exampleEnv (okResponse JNull)) (lit ''db.kdbx'') exampleWorld) = Inl TypeError"
    using stat_discriminator [of "exampleEnv (okResponse JNull)" exampleWorld "lit ''db.kdbx''"
        "\<lparr>resp_status = 200, resp_data = JNull, resp_headers = []\<rparr>"]
    by (simp add: exampleEnv_oauth exampleEnv_xhr okResponse_def)
  have 5: "fst (stat (exampleEnv (okResponse (JObject []))) (lit ''db.kdbx'') exampleWorld)
     = Inl (Error (lit ''.tag not found in response''))"
    using stat_discriminator [of "exampleEnv (okResponse (JObject []))" exampleWorld "lit ''db.kdbx''"
        "\<lparr>resp_status = 200, resp_data = JObject [], resp_headers = []\<rparr>" _ _ JUndefined]
    by (simp add: exampleEnv_oauth exampleEnv_xhr okResponse_def lookupProp_def)
  have b: "getProp brokenEntry (lit ''.tag'') = Inr (JString (lit ''file''))"
    "typeof (optProp brokenEntry (lit ''rev'')) \<noteq> TString"
    by (simp_all add: brokenEntry_def optProp_def lookupProp_def lit_def)
  have 6: "fst (stat (exampleEnv (okResponse brokenEntry)) (lit ''x'') exampleWorld)
     = Inr \<lparr>stat_rev = None, stat_folder = None\<rparr>"
    using b
      stat_discriminator [of "exampleEnv (okResponse brokenEntry)" exampleWorld "lit ''x''"
        "\<lparr>resp_status = 200, resp_data = brokenEntry, resp_headers = []\<rparr>"]
    by (simp add: exampleEnv_oauth exampleEnv_xhr okResponse_def)
  have 7: "isl (fst (stat (exampleEnv (okResponse deletedEntry)) (lit ''old.kdbx'') exampleWorld))"
    using 3 by simp
  show ?thesis
    using 1 2 3 4 5 6 7 by blast
qed

lemma statResult_shape:
  "statResult d = Inr st \<Longrightarrow>
   (st = \<lparr>stat_rev = None, stat_folder = Some True\<rparr>)
   \<or> (stat_folder st = None \<and> stat_rev st = stringOption (optProp d (lit ''rev'')))"
  by (cases d) (auto simp: statResult_def optProp_def split: sum.splits jsvalue.splits if_splits)

text \<open>
  C9: every result that \<open>stat\<close> returns either has \<open>folder\<close> set to true and no
  \<open>rev\<close>, or has no \<open>folder\<close> field and a \<open>rev\<close> exactly when the \<open>rev\<close> of
  the response is a string; none has both a \<open>rev\<close> and the \<open>folder\<close> flag.
\<close>

theorem stat_shape:
  "fst (stat env path w) = Inr st \<longrightarrow>
     ((stat_folder st = Some True \<and> stat_rev st = None)
      \<or> (stat_folder st = None
          \<and> (\<exists>response. xhr env (apiRequest env (statArgs env (toFullPath (settings w) path))) = Inr response
                \<and> stat_rev st = stringOption (optProp (resp_data response) (lit ''rev'')))))
     \<and> (stat_rev st = None \<or> stat_folder st = None)"
proof
  assume "fst (stat env path w) = Inr st"
  then obtain response where
    r: "xhr env (apiRequest env (statArgs env (toFullPath (settings w) path))) = Inr response"
      "statResult (resp_data response) = Inr st"
    using stat_results by blast
  from statResult_shape [OF r(2)] r(1)
  show "((stat_folder st = Some True \<and> stat_rev st = None)
      \<or> (stat_folder st = None
          \<and> (\<exists>response. xhr env (apiRequest env (statArgs env (toFullPath (settings w) path))) = Inr response
                \<and> stat_rev st = stringOption (optProp (resp_data response) (lit ''rev'')))))
     \<and> (stat_rev st = None \<or> stat_folder st = None)"
    by auto
qed

lemma stat_file_example:
  "fst (stat (exampleEnv (okResponse fileEntry)) (lit ''db.kdbx'') exampleWorld)
     = Inr \<lparr>stat_rev = Some (lit ''abc''), stat_folder = None\<rparr>"
  using fileEntry_props
  by (simp add: stat_resolved [where response = "\<lparr>resp_status = 200, resp_data = fileEntry, resp_headers = []\<rparr>"]
      exampleEnv_oauth exampleEnv_xhr okResponse_def statResult_def)

lemma stat_folder_example:
  "fst (stat (exampleEnv (okResponse folderEntry)) (lit ''sub'') exampleWorld)
     = Inr \<lparr>stat_rev = None, stat_folder = Some True\<rparr>"
  using folderEntry_props lit_file_folder
  by (simp add: stat_resolved [where response = "\<lparr>resp_status = 200, resp_data = folderEntry, resp_headers = []\<rparr>"]
      exampleEnv_oauth exampleEnv_xhr okResponse_def statResult_def)

theorem stat_shape_witness:
  "fst (stat (exampleEnv (okResponse fileEntry)) (lit ''db.kdbx'') exampleWorld)
     = Inr \<lparr>stat_rev = Some (lit ''abc''), stat_folder = None\<rparr>
   \<and> stat_folder \<lparr>stat_rev = Some (lit ''abc''), stat_folder = None\<rparr> = None
   \<and> stringOption (optProp fileEntry (lit ''rev'')) = Some (lit ''abc'')
   \<and> fst (stat (exampleEnv (okResponse folderEntry)) (lit ''sub'') exampleWorld)
     = Inr \<lparr>stat_rev = None, stat_folder = Some True\<rparr>
   \<and> stat_rev \<lparr>stat_rev = None, stat_folder = Some True\<rparr> = None"
proof -
  have "stringOption (optProp fileEntry (lit ''rev'')) = Some (lit ''abc'')"
    using fileEntry_props by (simp add: optProp_def)
  then show ?thesis
    using stat_file_example stat_folder_example
      stat_shape [of "exampleEnv (okResponse fileEntry)" "lit ''db.kdbx''" exampleWorld
        "\<lparr>stat_rev = Some (lit ''abc''), stat_folder = None\<rparr>"]
      stat_shape [of "exampleEnv (okResponse folderEntry)" "lit ''sub''" exampleWorld
        "\<lparr>stat_rev = None, stat_folder = Some True\<rparr>"]
    by simp
qed

section \<open>save\<close>

lemma save_effects:
  "oauthAuthorize env = None \<Longrightarrow>
   effects (snd (save env path data rv w)) = effects w @ [OAuthAuthorize, Xhr (saveRequest env w path data rv)]"
  by (auto simp: save_def Let_def apiCall_def effects_emit saveRequest_def
      split: sum.splits jsvalue.splits)

lemma save_rejected:
  "oauthAuthorize env = None \<Longrightarrow> xhr env (saveRequest env w path data rv) = Inl e \<Longrightarrow>
   fst (save env path data rv w) = Inl (apiError e)"
  by (simp add: save_def Let_def saveRequest_def apiCall_rejected)

lemma save_resolved:
  "oauthAuthorize env = None \<Longrightarrow> xhr env (saveRequest env w path data rv) = Inr response \<Longrightarrow>
   getProp (resp_data response) (lit ''rev'') = Inr (JString fresh) \<Longrightarrow>
   fst (save env path data rv w) = Inr \<lparr>save_rev = Some fresh\<rparr>"
  by (simp add: save_def Let_def saveRequest_def apiCall_resolved)

lemma status_409: "lit ''API error, status code '' @ numberToString 409 = lit ''API error, status code 409''"
  by (simp add: numberToString_409) (simp add: lit_def)

text \<open>
  C1, where the claim fails: a \<open>save\<close> with the revision \<open>abc\<close> that the transport
  rejects with Dropbox's answer to a revision conflict (status 409) ends with the generic
  error \<open>API error, status code 409\<close>, the very error a full quota gives: the code
  has no error for a conflict.
\<close>

theorem save_conflict_counterexample:
  "fst (save (exampleEnv (Inl conflictError)) (lit ''db.kdbx'') [] (Some (lit ''abc'')) exampleWorld)
     = Inl (Error (lit ''API error, status code 409''))
   \<and> fst (save (exampleEnv (Inl quotaError)) (lit ''db.kdbx'') [] (Some (lit ''abc'')) exampleWorld)
     = Inl (Error (lit ''API error, status code 409''))"
proof -
  have c: "\<not> notFoundBody conflictError" "thrownStatus conflictError = 409"
    by (simp_all add: notFoundBody_def conflictError_def lit_def)
  have q: "\<not> notFoundBody quotaError" "thrownStatus quotaError = 409"
    by (simp_all add: notFoundBody_def quotaError_def lit_def)
  have "fst (save (exampleEnv (Inl conflictError)) (lit ''db.kdbx'') [] (Some (lit ''abc'')) exampleWorld)
      = Inl (apiError conflictError)"
    by (rule save_rejected) (simp_all add: exampleEnv_oauth exampleEnv_xhr)
  moreover have "fst (save (exampleEnv (Inl quotaError)) (lit ''db.kdbx'') [] (Some (lit ''abc'')) exampleWorld)
      = Inl (apiError quotaError)"
    by (rule save_rejected) (simp_all add: exampleEnv_oauth exampleEnv_xhr)
  ultimately show ?thesis
    using c q by (simp add: apiError_other status_409)
qed

text \<open>
  C1 as amended: with a non-empty \<open>rev\<close> the argument of the upload has the mode
  \<open>update\<close> carrying \<open>rev\<close>, with no \<open>rev\<close> (or an empty one) the mode
  \<open>overwrite\<close>; an authorized \<open>save\<close> makes exactly one request, with that argument
  encoded in the header \<open>Dropbox-API-Arg\<close>; a rejection of the transport, a revision
  conflict included, ends with \<open>StorageFileNotFoundError\<close> or the generic API error
  with the status; and when the transport resolves with a string \<open>rev\<close>, \<open>save\<close>
  returns it.
\<close>

theorem save_modes:
  "(rv = Some r \<and> r \<noteq> [] \<longrightarrow>
      saveArg p rv = JObject [(lit ''path'', JString p),
                              (lit ''mode'', JObject [(lit ''.tag'', JString (lit ''update'')),
                                                      (lit ''update'', JString r)])])
   \<and> (rv = None \<or> rv = Some [] \<longrightarrow>
      saveArg p rv = JObject [(lit ''path'', JString p),
                              (lit ''mode'', JObject [(lit ''.tag'', JString (lit ''overwrite''))])])
   \<and> (oauthAuthorize env = None \<longrightarrow>
        effects (snd (save env path data rv w))
          = effects w @ [OAuthAuthorize, Xhr (saveRequest env w path data rv)]
        \<and> cfg_headers (saveRequest env w path data rv)
          = [(lit ''Dropbox-API-Arg'',
              encodeJsonHttpHeader (JSON_stringify env (saveArg (toFullPath (settings w) path) rv)))])
   \<and> (oauthAuthorize env = None \<and> xhr env (saveRequest env w path data rv) = Inl e \<longrightarrow>
        (notFoundBody e \<longrightarrow> fst (save env path data rv w) = Inl StorageFileNotFoundError)
        \<and> (\<not> notFoundBody e \<longrightarrow>
             fst (save env path data rv w)
               = Inl (Error (lit ''API error, status code '' @ numberToString (thrownStatus e)))))
   \<and> (oauthAuthorize env = None \<and> xhr env (saveRequest env w path data rv) = Inr response
        \<and> getProp (resp_data response) (lit ''rev'') = Inr (JString fresh) \<longrightarrow>
        fst (save env path data rv w) = Inr \<lparr>save_rev = Some fresh\<rparr>)"
proof -
  have 1: "rv = Some r \<and> r \<noteq> [] \<longrightarrow>
      saveArg p rv = JObject [(lit ''path'', JString p),
                              (lit ''mode'', JObject [(lit ''.tag'', JString (lit ''update'')),
                                                      (lit ''update'', JString r)])]"
    by (simp add: saveArg_def)
  have 2: "rv = None \<or> rv = Some [] \<longrightarrow>
      saveArg p rv = JObject [(lit ''path'', JString p),
                              (lit ''mode'', JObject [(lit ''.tag'', JString (lit ''overwrite''))])]"
    by (auto simp: saveArg_def)
  have 3: "oauthAuthorize env = None \<longrightarrow>
        effects (snd (save env path data rv w))
          = effects w @ [OAuthAuthorize, Xhr (saveRequest env w path data rv)]
        \<and> cfg_headers (saveRequest env w path data rv)
          = [(lit ''Dropbox-API-Arg'',
              encodeJsonHttpHeader (JSON_stringify env (saveArg (toFullPath (settings w) path) rv)))]"
    by (simp add: save_effects) (simp add: saveRequest_def apiRequest_def saveArgs_def Let_def)
  have 4: "oauthAuthorize env = None \<and> xhr env (saveRequest env w path data rv) = Inl e \<longrightarrow>
        (notFoundBody e \<longrightarrow> fst (save env path data rv w) = Inl StorageFileNotFoundError)
        \<and> (\<not> notFoundBody e \<longrightarrow>
             fst (save env path data rv w)
               = Inl (Error (lit ''API error, status code '' @ numberToString (thrownStatus e))))"
    by (auto simp: save_rejected apiError_not_found apiError_other)
  have 5: "oauthAuthorize env = None \<and> xhr env (saveRequest env w path data rv) = Inr response
        \<and> getProp (resp_data response) (lit ''rev'') = Inr (JString fresh) \<longrightarrow>
        fst (save env path data rv w) = Inr \<lparr>save_rev = Some fresh\<rparr>"
    by (auto simp: save_resolved)
  show ?thesis
    using 1 2 3 4 5 by blast
qed


lemma fileEntry_rev: "getProp fileEntry (lit ''rev'') = Inr (JString (lit ''abc''))"
  by (simp add: fileEntry_def lookupProp_def lit_def)

theorem save_modes_witness:
  "saveArg (lit ''/Vault/db.kdbx'') (Some (lit ''abc''))
     = JObject [(lit ''path'', JString (lit ''/Vault/db.kdbx'')),
                (lit ''mode'', JObject [(lit ''.tag'', JString (lit ''update'')),
                                        (lit ''update'', JString (lit ''abc''))])]
   \<and> saveArg (lit ''/Vault/db.kdbx'') None
     = JObject [(lit ''path'', JString (lit ''/Vault/db.kdbx'')),
                (lit ''mode'', JObject [(lit ''.tag'', JString (lit ''overwrite''))])]
   \<and> effects (snd (save (exampleEnv (okResponse fileEntry)) (lit ''db.kdbx'') [] None exampleWorld))
     = [OAuthAuthorize, Xhr (saveRequest (exampleEnv (okResponse fileEntry)) exampleWorld (lit ''db.kdbx'') [] None)]
   \<and> fst (save (exampleEnv (okResponse fileEntry)) (lit ''db.kdbx'') [] None exampleWorld)
     = Inr \<lparr>save_rev = Some (lit ''abc'')\<rparr>
   \<and> fst (save (exampleEnv (Inl notFoundError)) (lit ''db.kdbx'') [] (Some (lit ''abc'')) exampleWorld)
     = Inl StorageFileNotFoundError
   \<and> fst (save (exampleEnv (Inl serverError)) (lit ''db.kdbx'') [] (Some (lit ''abc'')) exampleWorld)
     = Inl (Error (lit ''API error, status code '' @ numberToString 500))"
proof -
  have n: "lit ''abc'' \<noteq> []"
    by (simp add: lit_def)
  have 1: "saveArg (lit ''/Vault/db.kdbx'') (Some (lit ''abc''))
     = JObject [(lit ''path'', JString (lit ''/Vault/db.kdbx'')),
                (lit ''mode'', JObject [(lit ''.tag'', JString (lit ''update'')),
                                        (lit ''update'', JString (lit ''abc''))])]"
    using n save_modes [of "Some (lit ''abc'')" "lit ''abc''" "lit ''/Vault/db.kdbx''"] by blast
  have 2: "saveArg (lit ''/Vault/db.kdbx'') None
     = JObject [(lit ''path'', JString (lit ''/Vault/db.kdbx'')),
                (lit ''mode'', JObject [(lit ''.tag'', JString (lit ''overwrite''))])]"
    using save_modes [of None _ "lit ''/Vault/db.kdbx''"] by blast
  have 3: "effects (snd (save (exampleEnv (okResponse fileEntry)) (lit ''db.kdbx'') [] None exampleWorld))
     = [OAuthAuthorize, Xhr (saveRequest (exampleEnv (okResponse fileEntry)) exampleWorld (lit ''db.kdbx'') [] None)]"
    using save_modes [of None _ _ "exampleEnv (okResponse fileEntry)" "lit ''db.kdbx''" "[]" exampleWorld]
    by (simp add: exampleEnv_oauth exampleWorld_def)
  have 4: "fst (save (exampleEnv (okResponse fileEntry)) (lit ''db.kdbx'') [] None exampleWorld)
     = Inr \<lparr>save_rev = Some (lit ''abc'')\<rparr>"
    using fileEntry_rev
      save_modes [of None _ _ "exampleEnv (okResponse fileEntry)" "lit ''db.kdbx''" "[]" exampleWorld _
        "\<lparr>resp_status = 200, resp_data = fileEntry, resp_headers = []\<rparr>" "lit ''abc''"]
    by (simp add: exampleEnv_oauth exampleEnv_xhr okResponse_def)
  have nf: "notFoundBody notFoundError"
    by (simp add: notFoundBody_def notFoundError_def lit_def)
  have 5: "fst (save (exampleEnv (Inl notFoundError)) (lit ''db.kdbx'') [] (Some (lit ''abc'')) exampleWorld)
     = Inl StorageFileNotFoundError"
    using nf
      save_modes [of "Some (lit ''abc'')" _ _ "exampleEnv (Inl notFoundError)" "lit ''db.kdbx''" "[]"
        exampleWorld notFoundError]
    by (simp add: exampleEnv_oauth exampleEnv_xhr)
  have se: "\<not> notFoundBody serverError" "thrownStatus serverError = 500"
    by (simp_all add: notFoundBody_def serverError_def)
  have 6: "fst (save (exampleEnv (Inl serverError)) (lit ''db.kdbx'') [] (Some (lit ''abc'')) exampleWorld)
     = Inl (Error (lit ''API error, status code '' @ numberToString 500))"
    using se
      save_modes [of "Some (lit ''abc'')" _ _ "exampleEnv (Inl serverError)" "lit ''db.kdbx''" "[]"
        exampleWorld serverError]
    by (simp add: exampleEnv_oauth exampleEnv_xhr)
  show ?thesis
    using 1 2 3 4 5 6 by blast
qed

section \<open>list\<close>

lemma listItem_spec:
  "\<not> nullish ent \<Longrightarrow> listItem lower s ent = Inr (if wellFormed ent then Some (entryItem lower s ent) else None)"
  by (cases ent) (auto simp: listItem_def wellFormed_def entryItem_def optProp_def split: jsvalue.splits)

lemma listEntries_spec:
  "\<forall>ent \<in> set ents. \<not> nullish ent \<Longrightarrow>
   listEntries lower s ents result = Inr (result @ map (entryItem lower s) (filter wellFormed ents))"
  by (induction ents arbitrary: result) (simp_all add: listItem_spec)

lemma list_resolved:
  "oauthAuthorize env = None \<Longrightarrow> xhr env (listRequest env w dir) = Inr response \<Longrightarrow>
   optProp (resp_data response) (lit ''entries'') = JArray entries \<Longrightarrow>
   fst (list env dir w) = listEntries (toLowerCase env) (settings w) entries []"
  by (simp add: list_def listRequest_def apiCall_resolved settings_emit)

text \<open>
  C4 as amended: when the call is authorized and the transport resolves with an
  \<open>entries\<close> array none of whose entries is \<open>null\<close> or \<open>undefined\<close>
  (the source takes every entry for a record), \<open>list\<close> returns the items of
  the well-formed entries, in order, and skips every other entry; so a listing of one
  well-formed entry and one entry that lacks a required field, in either order, has
  exactly one item. The \<open>dir\<close> flag of an item is true exactly when the \<open>.tag\<close> of
  its entry is not \<open>file\<close>.
\<close>

theorem list_skips_malformed:
  "oauthAuthorize env = None \<and> xhr env (listRequest env w dir) = Inr response
   \<and> optProp (resp_data response) (lit ''entries'') = JArray entries
   \<and> (\<forall>ent \<in> set entries. \<not> nullish ent) \<longrightarrow>
     fst (list env dir w) = Inr (map (entryItem (toLowerCase env) (settings w)) (filter wellFormed entries))
     \<and> ((entries = [good, bad] \<or> entries = [bad, good]) \<and> wellFormed good \<and> \<not> wellFormed bad
          \<longrightarrow> fst (list env dir w) = Inr [entryItem (toLowerCase env) (settings w) good])
     \<and> (\<forall>ent \<in> set entries.
          item_dir (entryItem (toLowerCase env) (settings w) ent) = (optProp ent (lit ''.tag'') \<noteq> JString (lit ''file'')))"
proof (intro impI, elim conjE)
  assume a: "oauthAuthorize env = None" "xhr env (listRequest env w dir) = Inr response"
    "optProp (resp_data response) (lit ''entries'') = JArray entries"
    "\<forall>ent \<in> set entries. \<not> nullish ent"
  have l: "fst (list env dir w) = Inr (map (entryItem (toLowerCase env) (settings w)) (filter wellFormed entries))"
    using list_resolved [OF a(1,2,3)] listEntries_spec [OF a(4), of "toLowerCase env" "settings w" "[]"] by simp
  have "fst (list env dir w) = Inr [entryItem (toLowerCase env) (settings w) good]"
    if "entries = [good, bad] \<or> entries = [bad, good]" "wellFormed good" "\<not> wellFormed bad"
    using that l by auto
  moreover have "\<forall>ent \<in> set entries.
      item_dir (entryItem (toLowerCase env) (settings w) ent) = (optProp ent (lit ''.tag'') \<noteq> JString (lit ''file''))"
    by (simp add: entryItem_def)
  ultimately show "fst (list env dir w) = Inr (map (entryItem (toLowerCase env) (settings w)) (filter wellFormed entries))
     \<and> ((entries = [good, bad] \<or> entries = [bad, good]) \<and> wellFormed good \<and> \<not> wellFormed bad
          \<longrightarrow> fst (list env dir w) = Inr [entryItem (toLowerCase env) (settings w) good])
     \<and> (\<forall>ent \<in> set entries.
          item_dir (entryItem (toLowerCase env) (settings w) ent) = (optProp ent (lit ''.tag'') \<noteq> JString (lit ''file'')))"
    using l by blast
qed


lemma entries_wf:
  "wellFormed fileEntry" "wellFormed folderEntry" "\<not> wellFormed brokenEntry"
  "\<not> nullish fileEntry" "\<not> nullish folderEntry" "\<not> nullish brokenEntry"
  by (simp_all add: wellFormed_def fileEntry_def folderEntry_def brokenEntry_def optProp_def
      lookupProp_def lit_def)

lemma exampleEnv_lower: "toLowerCase (exampleEnv r) = asciiLowerCase"
  by (simp add: exampleEnv_def)

lemma fileEntry_item:
  "entryItem asciiLowerCase vaultSettings fileEntry
     = \<lparr>item_name = lit ''db.kdbx'', item_path = lit ''/sub/db.kdbx'', item_rev = Some (lit ''abc''),
        item_dir = False\<rparr>"
proof -
  have "toRelPath asciiLowerCase vaultSettings (lit ''/vault/sub/db.kdbx'') = lit ''/sub/db.kdbx''"
    by (simp add: toRelPath_def vaultSettings_def lit_def SLASH_def indexOf_def
        asciiLowerCase_def lowerUnit_def substr_def)
  moreover have "optProp fileEntry (lit ''name'') = JString (lit ''db.kdbx'')"
    "optProp fileEntry (lit ''path_display'') = JString (lit ''/vault/sub/db.kdbx'')"
    "optProp fileEntry (lit ''rev'') = JString (lit ''abc'')"
    "optProp fileEntry (lit ''.tag'') = JString (lit ''file'')"
    by (simp_all add: fileEntry_def optProp_def lookupProp_def lit_def)
  ultimately show ?thesis
    by (simp add: entryItem_def)
qed

theorem list_skips_malformed_witness:
  "optProp (JObject [(lit ''entries'', JArray [brokenEntry, fileEntry])]) (lit ''entries'')
     = JArray [brokenEntry, fileEntry]
   \<and> wellFormed fileEntry \<and> \<not> wellFormed brokenEntry
   \<and> \<not> nullish fileEntry \<and> \<not> nullish brokenEntry
   \<and> fst (list (exampleEnv (okResponse (JObject [(lit ''entries'', JArray [brokenEntry, fileEntry])])))
            None exampleWorld)
     = Inr [\<lparr>item_name = lit ''db.kdbx'', item_path = lit ''/sub/db.kdbx'',
              item_rev = Some (lit ''abc''), item_dir = False\<rparr>]"
proof -
  let ?d = "JObject [(lit ''entries'', JArray [brokenEntry, fileEntry])]"
  have e: "optProp ?d (lit ''entries'') = JArray [brokenEntry, fileEntry]"
    by (simp add: optProp_def lookupProp_def)
  have s: "settings exampleWorld = vaultSettings"
    by (simp add: exampleWorld_def)
  have "fst (list (exampleEnv (okResponse ?d)) None exampleWorld) = Inr [entryItem asciiLowerCase vaultSettings fileEntry]"
    using e s entries_wf
      list_skips_malformed [of "exampleEnv (okResponse ?d)" exampleWorld None
        "\<lparr>resp_status = 200, resp_data = ?d, resp_headers = []\<rparr>" "[brokenEntry, fileEntry]"
        fileEntry brokenEntry]
    by (simp add: exampleEnv_oauth exampleEnv_xhr exampleEnv_lower okResponse_def)
  then show ?thesis
    using e entries_wf fileEntry_item by simp
qed

text \<open>
  C4, where the claim fails: an entry that is \<open>null\<close> is not well-formed, and it is
  not skipped: reading its \<open>name\<close> is a \<open>TypeError\<close>, which ends the listing,
  the well-formed entry after it notwithstanding.
\<close>

theorem list_null_entry_counterexample:
  "wellFormed fileEntry \<and> \<not> wellFormed JNull
   \<and> fst (list (exampleEnv (okResponse (JObject [(lit ''entries'', JArray [JNull, fileEntry])])))
            None exampleWorld) = Inl TypeError"
proof -
  let ?d = "JObject [(lit ''entries'', JArray [JNull, fileEntry])]"
  have e: "optProp ?d (lit ''entries'') = JArray [JNull, fileEntry]"
    by (simp add: optProp_def lookupProp_def)
  have "fst (list (exampleEnv (okResponse ?d)) None exampleWorld)
      = listEntries (toLowerCase (exampleEnv (okResponse ?d))) (settings exampleWorld) [JNull, fileEntry] []"
    by (rule list_resolved [where response = "\<lparr>resp_status = 200, resp_data = ?d, resp_headers = []\<rparr>"])
      (simp_all add: exampleEnv_oauth exampleEnv_xhr okResponse_def e)
  moreover have "listEntries lower (settings exampleWorld) [JNull, fileEntry] [] = Inl TypeError" for lower
    by (simp add: listItem_def)
  moreover have "\<not> wellFormed JNull"
    by (simp add: wellFormed_def optProp_def)
  ultimately show ?thesis
    using entries_wf(1) by simp
qed

section \<open>Configuration\<close>

lemma fixConfigFolder_steps:
  "fixConfigFolder folder = stripLeadingSlash (trim (backslashesToSlashes folder))"
  by (simp add: fixConfigFolder_def stripLeadingSlash_def backslashesToSlashes_def substr_def Let_def
      drop_Suc split: list.splits)

lemma fixConfigFolder_Nil: "fixConfigFolder [] = []"
  by (simp add: fixConfigFolder_def trim_def)

lemma set_trim: "set (trim s) \<subseteq> set s"
proof -
  have "set (trim s) \<subseteq> set (dropWhile isWhiteSpace s)"
    unfolding trim_def using set_dropWhileD [of _ isWhiteSpace "rev (dropWhile isWhiteSpace s)"] by auto
  then show ?thesis
    using set_dropWhileD [of _ isWhiteSpace s] by auto
qed

lemma fixConfigFolder_no_backslash: "BACKSLASH \<notin> set (fixConfigFolder folder)"
proof -
  have b: "BACKSLASH \<notin> set (backslashesToSlashes folder)"
    by (auto simp: backslashesToSlashes_def BACKSLASH_def SLASH_def)
  have "set (fixConfigFolder folder) \<subseteq> set (trim (backslashesToSlashes folder))"
    unfolding fixConfigFolder_steps stripLeadingSlash_def
    by (cases "trim (backslashesToSlashes folder)") auto
  then show ?thesis
    using b set_trim by blast
qed

text \<open>
  C7: \<open>applyConfig\<close> with a key equal to one of the two built-in identifiers fails
  with the error \<open>Bad key\<close> and leaves the world as it was: the settings are
  unchanged and no call is made. With any other key it succeeds, and the settings hold
  the key, the secret and the sanitized folder, set in one batch. Sanitizing converts
  backslashes to slashes, trims white space and strips one leading slash.
\<close>

theorem applyConfig_rejects_built_in:
  "(builtInKey env (config_key config) \<longrightarrow>
      applyConfig env config w = (Inl (Error (lit ''Bad key'')), w))
   \<and> (\<not> builtInKey env (config_key config) \<longrightarrow>
      fst (applyConfig env config w) = Inr ()
      \<and> settings (snd (applyConfig env config w))
          = \<lparr>dropboxAppKey = config_key config, dropboxSecret = config_secret config,
             dropboxFolder = map_option fixConfigFolder (config_folder config)\<rparr>
      \<and> effects (snd (applyConfig env config w))
          = effects w @ [BatchSet (settings (snd (applyConfig env config w)))])
   \<and> fixConfigFolder folder = stripLeadingSlash (trim (backslashesToSlashes folder))
   \<and> BACKSLASH \<notin> set (fixConfigFolder folder)"
proof -
  have 1: "builtInKey env (config_key config) \<longrightarrow>
      applyConfig env config w = (Inl (Error (lit ''Bad key'')), w)"
    by (auto simp: applyConfig_def builtInKey_def)
  have f: "(if truthy (config_folder config) then Some (fixConfigFolder (the (config_folder config)))
       else config_folder config) = map_option fixConfigFolder (config_folder config)"
    by (cases "config_folder config") (auto simp: fixConfigFolder_Nil)
  have 2: "\<not> builtInKey env (config_key config) \<longrightarrow>
      fst (applyConfig env config w) = Inr ()
      \<and> settings (snd (applyConfig env config w))
          = \<lparr>dropboxAppKey = config_key config, dropboxSecret = config_secret config,
             dropboxFolder = map_option fixConfigFolder (config_folder config)\<rparr>
      \<and> effects (snd (applyConfig env config w))
          = effects w @ [BatchSet (settings (snd (applyConfig env config w)))]"
    using f by (simp add: applyConfig_def builtInKey_def batchSet_def Let_def emit_def)
  show ?thesis
    using 1 2 fixConfigFolder_steps fixConfigFolder_no_backslash by blast
qed

theorem applyConfig_rejects_built_in_witness:
  "builtInKey (exampleEnv (okResponse JNull)) (Some (lit ''app-folder-id''))
   \<and> applyConfig (exampleEnv (okResponse JNull))
        \<lparr>config_key = Some (lit ''app-folder-id''), config_secret = None, config_folder = None\<rparr> exampleWorld
     = (Inl (Error (lit ''Bad key'')), exampleWorld)
   \<and> \<not> builtInKey (exampleEnv (okResponse JNull)) (Some (lit ''mykey''))
   \<and> fst (applyConfig (exampleEnv (okResponse JNull))
        \<lparr>config_key = Some (lit ''mykey''), config_secret = Some (lit ''mysecret''),
         config_folder = Some (lit '' /Vault '')\<rparr> exampleWorld) = Inr ()
   \<and> settings (snd (applyConfig (exampleEnv (okResponse JNull))
        \<lparr>config_key = Some (lit ''mykey''), config_secret = Some (lit ''mysecret''),
         config_folder = Some (lit '' /Vault '')\<rparr> exampleWorld))
     = \<lparr>dropboxAppKey = Some (lit ''mykey''), dropboxSecret = Some (lit ''mysecret''),
        dropboxFolder = Some (lit ''Vault'')\<rparr>"
proof -
  let ?env = "exampleEnv (okResponse JNull)"
  have b: "builtInKey ?env (Some (lit ''app-folder-id''))" "\<not> builtInKey ?env (Some (lit ''mykey''))"
    by (simp_all add: builtInKey_def exampleEnv_def lit_def)
  have f: "fixConfigFolder (lit '' /Vault '') = lit ''Vault''"
    by (simp add: fixConfigFolder_def trim_def isWhiteSpace_def lit_def BACKSLASH_def SLASH_def substr_def)
  have 1: "applyConfig ?env
        \<lparr>config_key = Some (lit ''app-folder-id''), config_secret = None, config_folder = None\<rparr> exampleWorld
     = (Inl (Error (lit ''Bad key'')), exampleWorld)"
    using b(1)
      applyConfig_rejects_built_in [of ?env
        "\<lparr>config_key = Some (lit ''app-folder-id''), config_secret = None, config_folder = None\<rparr>" exampleWorld]
    by simp
  have 2: "fst (applyConfig ?env
        \<lparr>config_key = Some (lit ''mykey''), config_secret = Some (lit ''mysecret''),
         config_folder = Some (lit '' /Vault '')\<rparr> exampleWorld) = Inr ()
     \<and> settings (snd (applyConfig ?env
        \<lparr>config_key = Some (lit ''mykey''), config_secret = Some (lit ''mysecret''),
         config_folder = Some (lit '' /Vault '')\<rparr> exampleWorld))
     = \<lparr>dropboxAppKey = Some (lit ''mykey''), dropboxSecret = Some (lit ''mysecret''),
        dropboxFolder = Some (lit ''Vault'')\<rparr>"
    using b(2) f
      applyConfig_rejects_built_in [of ?env
        "\<lparr>config_key = Some (lit ''mykey''), config_secret = Some (lit ''mysecret''),
          config_folder = Some (lit '' /Vault '')\<rparr>" exampleWorld]
    by simp
  show ?thesis
    using b 1 2 by blast
qed

lemma keys_distinct:
  "lit ''key'' \<noteq> lit ''link''" "lit ''secret'' \<noteq> lit ''link''" "lit ''secret'' \<noteq> lit ''key''"
  "lit ''folder'' \<noteq> lit ''link''" "lit ''folder'' \<noteq> lit ''key''" "lit ''folder'' \<noteq> lit ''secret''"
  "lit ''full'' \<noteq> lit ''app''" "lit ''custom'' \<noteq> lit ''app''" "lit ''custom'' \<noteq> lit ''full''"
  by (simp_all add: lit_def)

lemma catchNoop_logout: "catchNoop (logout env w) = (Inr (), w\<lparr>effects := effects w @ [revokeCall]\<rparr>)"
  by (simp add: catchNoop_def logout_def emit_def revokeCall_def Let_def split: option.splits)

lemma fixConfigFolder_examples:
  "fixConfigFolder (lit '' /Vault '') = lit ''Vault''"
  "fixConfigFolder (lit '' '' @ BACKSLASH # lit ''Vault'' @ BACKSLASH # lit ''sub '') = lit ''Vault/sub''"
  "fixConfigFolder (lit ''//a'') = lit ''/a''"
  "fixConfigFolder (lit ''/ a'') = lit '' a''"
  by (simp_all add: fixConfigFolder_def trim_def isWhiteSpace_def lit_def BACKSLASH_def SLASH_def
      substr_def)

text \<open>
  C8: \<open>applySetting\<close> with the key \<open>link\<close> and the value \<open>app\<close>, \<open>full\<close> or
  \<open>custom\<close>, and with the keys \<open>key\<close> and \<open>secret\<close>, sets the one setting and
  calls \<open>logout\<close> (one \<open>oauthRevokeToken\<close>), and returns normally also when the
  logout is rejected; with the key \<open>folder\<close> it stores the sanitized folder and calls
  nothing; with the key \<open>link\<close> and any other value it changes nothing. The
  sanitized folder is the value with its backslashes made slashes, then trimmed of
  white space, then without one leading slash: \<open>/Vault\<close> between two spaces is
  stored as \<open>Vault\<close>; a space, a backslash, \<open>Vault\<close>, a backslash, \<open>sub\<close>
  and a space as \<open>Vault/sub\<close>; \<open>//a\<close> as \<open>/a\<close>; and \<open>/ a\<close> keeps the
  space after its slash.
\<close>

theorem applySetting_logout:
  "applySetting env (lit ''link'') (lit ''app'') w
     = (Inr (), w\<lparr>settings := (settings w)\<lparr>dropboxAppKey := Some (AppFolder_id env)\<rparr>,
                   effects := effects w @ [revokeCall]\<rparr>)
   \<and> applySetting env (lit ''link'') (lit ''full'') w
     = (Inr (), w\<lparr>settings := (settings w)\<lparr>dropboxAppKey := Some (FullDropbox_id env)\<rparr>,
                   effects := effects w @ [revokeCall]\<rparr>)
   \<and> applySetting env (lit ''link'') (lit ''custom'') w
     = (Inr (), w\<lparr>settings := (settings w)\<lparr>dropboxAppKey := Some (lit ''('' @ dropboxAppKeyHint env @ lit '')'')\<rparr>,
                   effects := effects w @ [revokeCall]\<rparr>)
   \<and> applySetting env (lit ''key'') v w
     = (Inr (), w\<lparr>settings := (settings w)\<lparr>dropboxAppKey := Some v\<rparr>,
                   effects := effects w @ [revokeCall]\<rparr>)
   \<and> applySetting env (lit ''secret'') v w
     = (Inr (), w\<lparr>settings := (settings w)\<lparr>dropboxSecret := Some v\<rparr>,
                   effects := effects w @ [revokeCall]\<rparr>)
   \<and> applySetting env (lit ''folder'') v w
     = (Inr (), w\<lparr>settings := (settings w)\<lparr>dropboxFolder := Some (fixConfigFolder v)\<rparr>\<rparr>)
   \<and> applySetting env (lit ''folder'') v w
     = (Inr (), w\<lparr>settings := (settings w)
          \<lparr>dropboxFolder := Some (stripLeadingSlash (trim (backslashesToSlashes v)))\<rparr>\<rparr>)
   \<and> applySetting env (lit ''folder'') (lit '' /Vault '') w
     = (Inr (), w\<lparr>settings := (settings w)\<lparr>dropboxFolder := Some (lit ''Vault'')\<rparr>\<rparr>)
   \<and> applySetting env (lit ''folder'') (lit '' '' @ BACKSLASH # lit ''Vault'' @ BACKSLASH # lit ''sub '') w
     = (Inr (), w\<lparr>settings := (settings w)\<lparr>dropboxFolder := Some (lit ''Vault/sub'')\<rparr>\<rparr>)
   \<and> applySetting env (lit ''folder'') (lit ''//a'') w
     = (Inr (), w\<lparr>settings := (settings w)\<lparr>dropboxFolder := Some (lit ''/a'')\<rparr>\<rparr>)
   \<and> applySetting env (lit ''folder'') (lit ''/ a'') w
     = (Inr (), w\<lparr>settings := (settings w)\<lparr>dropboxFolder := Some (lit '' a'')\<rparr>\<rparr>)
   \<and> (v \<noteq> lit ''app'' \<and> v \<noteq> lit ''full'' \<and> v \<noteq> lit ''custom''
        \<longrightarrow> applySetting env (lit ''link'') v w = (Inr (), w))
   \<and> (oauthRevokeToken env = Some e
        \<longrightarrow> fst (logout env (setAppKey v w)) = Inl (Rejected e)
            \<and> fst (applySetting env (lit ''key'') v w) = Inr ())"
proof -
  have 1: "applySetting env (lit ''link'') (lit ''app'') w
     = (Inr (), w\<lparr>settings := (settings w)\<lparr>dropboxAppKey := Some (AppFolder_id env)\<rparr>,
                   effects := effects w @ [revokeCall]\<rparr>)"
    by (simp add: applySetting_def catchNoop_logout setAppKey_def)
  have 2: "applySetting env (lit ''link'') (lit ''full'') w
     = (Inr (), w\<lparr>settings := (settings w)\<lparr>dropboxAppKey := Some (FullDropbox_id env)\<rparr>,
                   effects := effects w @ [revokeCall]\<rparr>)"
    by (simp add: applySetting_def catchNoop_logout setAppKey_def keys_distinct)
  have 3: "applySetting env (lit ''link'') (lit ''custom'') w
     = (Inr (), w\<lparr>settings := (settings w)\<lparr>dropboxAppKey := Some (lit ''('' @ dropboxAppKeyHint env @ lit '')'')\<rparr>,
                   effects := effects w @ [revokeCall]\<rparr>)"
    by (simp add: applySetting_def catchNoop_logout setAppKey_def keys_distinct)
  have 4: "applySetting env (lit ''key'') v w
     = (Inr (), w\<lparr>settings := (settings w)\<lparr>dropboxAppKey := Some v\<rparr>,
                   effects := effects w @ [revokeCall]\<rparr>)"
    by (simp add: applySetting_def catchNoop_logout setAppKey_def keys_distinct)
  have 5: "applySetting env (lit ''secret'') v w
     = (Inr (), w\<lparr>settings := (settings w)\<lparr>dropboxSecret := Some v\<rparr>,
                   effects := effects w @ [revokeCall]\<rparr>)"
    by (simp add: applySetting_def catchNoop_logout setSecret_def keys_distinct)
  have 6: "applySetting env (lit ''folder'') x w
     = (Inr (), w\<lparr>settings := (settings w)\<lparr>dropboxFolder := Some (fixConfigFolder x)\<rparr>\<rparr>)" for x
    by (simp add: applySetting_def setFolder_def keys_distinct)
  have 7: "v \<noteq> lit ''app'' \<and> v \<noteq> lit ''full'' \<and> v \<noteq> lit ''custom''
        \<longrightarrow> applySetting env (lit ''link'') v w = (Inr (), w)"
    by (simp add: applySetting_def)
  have 8: "oauthRevokeToken env = Some e
        \<longrightarrow> fst (logout env (setAppKey v w)) = Inl (Rejected e)
            \<and> fst (applySetting env (lit ''key'') v w) = Inr ()"
    using 4 by (simp add: logout_def Let_def)
  have 9: "applySetting env (lit ''folder'') v w
     = (Inr (), w\<lparr>settings := (settings w)
          \<lparr>dropboxFolder := Some (stripLeadingSlash (trim (backslashesToSlashes v)))\<rparr>\<rparr>)"
    using 6 [of v] fixConfigFolder_steps [of v] by simp
  have 10: "applySetting env (lit ''folder'') (lit '' /Vault '') w
     = (Inr (), w\<lparr>settings := (settings w)\<lparr>dropboxFolder := Some (lit ''Vault'')\<rparr>\<rparr>)"
    using 6 [of "lit '' /Vault ''"] fixConfigFolder_examples(1) by simp
  have 11: "applySetting env (lit ''folder'') (lit '' '' @ BACKSLASH # lit ''Vault'' @ BACKSLASH # lit ''sub '') w
     = (Inr (), w\<lparr>settings := (settings w)\<lparr>dropboxFolder := Some (lit ''Vault/sub'')\<rparr>\<rparr>)"
    using 6 [of "lit '' '' @ BACKSLASH # lit ''Vault'' @ BACKSLASH # lit ''sub ''"]
      fixConfigFolder_examples(2) by simp
  have 12: "applySetting env (lit ''folder'') (lit ''//a'') w
     = (Inr (), w\<lparr>settings := (settings w)\<lparr>dropboxFolder := Some (lit ''/a'')\<rparr>\<rparr>)"
    using 6 [of "lit ''//a''"] fixConfigFolder_examples(3) by simp
  have 13: "applySetting env (lit ''folder'') (lit ''/ a'') w
     = (Inr (), w\<lparr>settings := (settings w)\<lparr>dropboxFolder := Some (lit '' a'')\<rparr>\<rparr>)"
    using 6 [of "lit ''/ a''"] fixConfigFolder_examples(4) by simp
  show ?thesis
    using 1 2 3 4 5 6 [of v] 7 8 9 10 11 12 13 by blast
qed

theorem applySetting_logout_witness:
  "lit ''other'' \<noteq> lit ''app'' \<and> lit ''other'' \<noteq> lit ''full'' \<and> lit ''other'' \<noteq> lit ''custom''
   \<and> applySetting revokeFailsEnv (lit ''link'') (lit ''other'') exampleWorld = (Inr (), exampleWorld)
   \<and> oauthRevokeToken revokeFailsEnv = Some serverError
   \<and> fst (logout revokeFailsEnv (setAppKey (lit ''mykey'') exampleWorld)) = Inl (Rejected serverError)
   \<and> fst (applySetting revokeFailsEnv (lit ''key'') (lit ''mykey'') exampleWorld) = Inr ()
   \<and> effects (snd (applySetting revokeFailsEnv (lit ''key'') (lit ''mykey'') exampleWorld)) = [revokeCall]
   \<and> effects (snd (applySetting revokeFailsEnv (lit ''folder'') (lit ''/Vault'') exampleWorld)) = []
   \<and> dropboxFolder (settings (snd (applySetting revokeFailsEnv (lit ''folder'') (lit ''/Docs '')
        exampleWorld))) = Some (lit ''Docs'')
   \<and> dropboxFolder (settings (snd (applySetting revokeFailsEnv (lit ''folder'')
        (lit '' '' @ BACKSLASH # lit ''Vault'' @ BACKSLASH # lit ''sub '') exampleWorld)))
       = Some (lit ''Vault/sub'')"
proof -
  have d: "lit ''other'' \<noteq> lit ''app'' \<and> lit ''other'' \<noteq> lit ''full'' \<and> lit ''other'' \<noteq> lit ''custom''"
    by (simp add: lit_def)
  have r: "oauthRevokeToken revokeFailsEnv = Some serverError"
    by (simp add: revokeFailsEnv_def)
  have e: "effects exampleWorld = []"
    by (simp add: exampleWorld_def)
  have f: "stripLeadingSlash (trim (backslashesToSlashes (lit ''/Docs ''))) = lit ''Docs''"
    by (simp add: stripLeadingSlash_def trim_def backslashesToSlashes_def isWhiteSpace_def lit_def
        BACKSLASH_def SLASH_def)
  note t1 = applySetting_logout [of revokeFailsEnv exampleWorld "lit ''other''" serverError]
  note t2 = applySetting_logout [of revokeFailsEnv exampleWorld "lit ''mykey''" serverError]
  note t3 = applySetting_logout [of revokeFailsEnv exampleWorld "lit ''/Vault''" serverError]
  note t4 = applySetting_logout [of revokeFailsEnv exampleWorld "lit ''/Docs ''" serverError]
  have 1: "applySetting revokeFailsEnv (lit ''link'') (lit ''other'') exampleWorld = (Inr (), exampleWorld)"
    using t1 d by blast
  have 2: "fst (logout revokeFailsEnv (setAppKey (lit ''mykey'') exampleWorld)) = Inl (Rejected serverError)
     \<and> fst (applySetting revokeFailsEnv (lit ''key'') (lit ''mykey'') exampleWorld) = Inr ()"
    using t2 r by blast
  have "applySetting revokeFailsEnv (lit ''key'') (lit ''mykey'') exampleWorld
     = (Inr (), exampleWorld\<lparr>settings := (settings exampleWorld)\<lparr>dropboxAppKey := Some (lit ''mykey'')\<rparr>,
                   effects := effects exampleWorld @ [revokeCall]\<rparr>)"
    using t2 by blast
  then have 3: "effects (snd (applySetting revokeFailsEnv (lit ''key'') (lit ''mykey'') exampleWorld))
      = [revokeCall]"
    using e by simp
  have "applySetting revokeFailsEnv (lit ''folder'') (lit ''/Vault'') exampleWorld
     = (Inr (), exampleWorld\<lparr>settings := (settings exampleWorld)
          \<lparr>dropboxFolder := Some (fixConfigFolder (lit ''/Vault''))\<rparr>\<rparr>)"
    using t3 by blast
  then have 4: "effects (snd (applySetting revokeFailsEnv (lit ''folder'') (lit ''/Vault'') exampleWorld)) = []"
    using e by simp
  have "applySetting revokeFailsEnv (lit ''folder'') (lit ''/Docs '') exampleWorld
     = (Inr (), exampleWorld\<lparr>settings := (settings exampleWorld)
          \<lparr>dropboxFolder := Some (stripLeadingSlash (trim (backslashesToSlashes (lit ''/Docs ''))))\<rparr>\<rparr>)"
    using t4 by blast
  then have 5: "dropboxFolder (settings (snd (applySetting revokeFailsEnv (lit ''folder'') (lit ''/Docs '')
        exampleWorld))) = Some (lit ''Docs'')"
    using f by simp
  have "applySetting revokeFailsEnv (lit ''folder'')
        (lit '' '' @ BACKSLASH # lit ''Vault'' @ BACKSLASH # lit ''sub '') exampleWorld
     = (Inr (), exampleWorld\<lparr>settings := (settings exampleWorld)
          \<lparr>dropboxFolder := Some (lit ''Vault/sub'')\<rparr>\<rparr>)"
    using t1 by blast
  then have 6: "dropboxFolder (settings (snd (applySetting revokeFailsEnv (lit ''folder'')
        (lit '' '' @ BACKSLASH # lit ''Vault'' @ BACKSLASH # lit ''sub '') exampleWorld)))
       = Some (lit ''Vault/sub'')"
    by simp
  show ?thesis
    using d r 1 2 3 4 5 6 by blast
qed

section \<open>The tags of the workspace\<close>































end
